theory Spec2Isabelle
  imports Complex_Main
begin

section \<open>HotShotXL motion module: weight-dictionary validation and module tree\<close>

text \<open>
  A shallow embedding of \<^verbatim>\<open>animatediff/motion_module_hsxl.py\<close>. Tensors are
  represented by their shapes, strings by the bytes of their UTF-8 encoding, the weight
  dictionary by an
  association list in insertion order, and every exception of the Python by a value
  of type \<open>error\<close>.
\<close>

subsection \<open>Exceptions\<close>

datatype error =
    MotionCompatibilityError string
  | TypeError string
  | IndexError string
  | ValueError string
  | KeyError string
  | RuntimeError string
  | EinopsError string

fun is_MotionCompatibilityError :: "error \<Rightarrow> bool" where
  "is_MotionCompatibilityError (MotionCompatibilityError m) = True"
| "is_MotionCompatibilityError e = False"

subsection \<open>Python string operations used on the keys\<close>

definition startswith :: "string \<Rightarrow> string \<Rightarrow> bool" where
  "startswith s p = (take (length p) s = p)"

definition endswith :: "string \<Rightarrow> string \<Rightarrow> bool" where
  "endswith s p = (length p \<le> length s \<and> drop (length s - length p) s = p)"

text \<open>\<^verbatim>\<open>sub in s\<close>: \<open>sub\<close> occurs in \<open>s\<close> as a contiguous substring.\<close>

fun py_in :: "string \<Rightarrow> string \<Rightarrow> bool" where
  "py_in sub [] = (sub = [])"
| "py_in sub (c # cs) = (startswith (c # cs) sub \<or> py_in sub cs)"

text \<open>\<^verbatim>\<open>s.split(".")\<close>: the segments between the dots, empty segments kept.\<close>

fun split_dot :: "string \<Rightarrow> string list" where
  "split_dot [] = [[]]"
| "split_dot (c # cs) =
     (if c = CHR ''.'' then [] # split_dot cs
      else (case split_dot cs of seg # segs \<Rightarrow> (c # seg) # segs | [] \<Rightarrow> [[c]]))"

text \<open>
  \<^verbatim>\<open>int(s)\<close> on a string, base ten, as CPython 3.11 computes it. A key is given by
  the bytes of its UTF-8 encoding. First every character is brought to ASCII: a character
  below 128 stays, a Unicode whitespace character becomes a space, a Unicode decimal digit
  (Unicode 14.0) becomes the ASCII digit of its value, and any other character becomes
  \<^verbatim>\<open>?\<close>, which no integer literal contains. Then surrounding ASCII whitespace is
  stripped, one sign is allowed, and decimal digits follow, with single underscores allowed
  between digits; more than 4300 digits are refused, the interpreter's default limit.
  Anything else raises ValueError, here \<open>None\<close>.
\<close>

definition byte :: "char \<Rightarrow> int" where
  "byte c = of_char c"

definition is_cont :: "char \<Rightarrow> bool" where
  "is_cont c = (0x80 \<le> byte c \<and> byte c \<le> 0xBF)"

text \<open>The whitespace characters from 128 on, and the digit zero of every decimal script.\<close>

definition unicode_spaces :: "int list" where
  "unicode_spaces =
     [0x85, 0xA0, 0x1680, 0x2000, 0x2001, 0x2002, 0x2003, 0x2004,
      0x2005, 0x2006, 0x2007, 0x2008, 0x2009, 0x200A, 0x2028, 0x2029,
      0x202F, 0x205F, 0x3000]"

definition unicode_decimal_zeros :: "int list" where
  "unicode_decimal_zeros =
     [0x660, 0x6F0, 0x7C0, 0x966, 0x9E6, 0xA66, 0xAE6, 0xB66,
      0xBE6, 0xC66, 0xCE6, 0xD66, 0xDE6, 0xE50, 0xED0, 0xF20,
      0x1040, 0x1090, 0x17E0, 0x1810, 0x1946, 0x19D0, 0x1A80, 0x1A90,
      0x1B50, 0x1BB0, 0x1C40, 0x1C50, 0xA620, 0xA8D0, 0xA900, 0xA9D0,
      0xA9F0, 0xAA50, 0xABF0, 0xFF10, 0x104A0, 0x10D30, 0x11066, 0x110F0,
      0x11136, 0x111D0, 0x112F0, 0x11450, 0x114D0, 0x11650, 0x116C0, 0x11730,
      0x118E0, 0x11950, 0x11C50, 0x11D50, 0x11DA0, 0x16A60, 0x16AC0, 0x16B50,
      0x1D7CE, 0x1D7D8, 0x1D7E2, 0x1D7EC, 0x1D7F6, 0x1E140, 0x1E2F0, 0x1E950,
      0x1FBF0]"

definition decimal_of :: "int \<Rightarrow> int option" where
  "decimal_of cp =
     map_option (\<lambda>z. cp - z) (find (\<lambda>z. z \<le> cp \<and> cp < z + 10) unicode_decimal_zeros)"

definition ascii_of :: "int \<Rightarrow> char" where
  "ascii_of cp =
     (if cp \<in> set unicode_spaces then CHR 0x20
      else case decimal_of cp of Some d \<Rightarrow> char_of (48 + d) | None \<Rightarrow> CHR ''?'')"

text \<open>
  The character that starts with the byte \<open>b0\<close>, followed by the bytes \<open>bs\<close>, brought
  to ASCII, and the number of bytes of \<open>bs\<close> that belong to it.
\<close>

definition utf8_head :: "char \<Rightarrow> string \<Rightarrow> char \<times> nat" where
  "utf8_head b0 bs =
     (if byte b0 < 0x80 then (b0, 0)
      else if 0xC2 \<le> byte b0 \<and> byte b0 \<le> 0xDF \<and> 1 \<le> length bs \<and>
              list_all is_cont (take 1 bs)
      then (ascii_of ((byte b0 - 0xC0) * 64 + (byte (bs ! 0) - 0x80)), 1)
      else if 0xE0 \<le> byte b0 \<and> byte b0 \<le> 0xEF \<and> 2 \<le> length bs \<and>
              list_all is_cont (take 2 bs)
      then (ascii_of ((byte b0 - 0xE0) * 4096 + (byte (bs ! 0) - 0x80) * 64 +
                      (byte (bs ! 1) - 0x80)), 2)
      else if 0xF0 \<le> byte b0 \<and> byte b0 \<le> 0xF4 \<and> 3 \<le> length bs \<and>
              list_all is_cont (take 3 bs)
      then (ascii_of ((byte b0 - 0xF0) * 262144 + (byte (bs ! 0) - 0x80) * 4096 +
                      (byte (bs ! 1) - 0x80) * 64 + (byte (bs ! 2) - 0x80)), 3)
      else (CHR ''?'', 0))"

fun to_ascii :: "string \<Rightarrow> string" where
  "to_ascii [] = []"
| "to_ascii (b0 # bs) = (case utf8_head b0 bs of (c, n) \<Rightarrow> c # to_ascii (drop n bs))"

definition py_isspace :: "char \<Rightarrow> bool" where
  "py_isspace c = (c \<in> set [CHR 0x09, CHR 0x0A, CHR 0x0B, CHR 0x0C, CHR 0x0D, CHR 0x20])"

definition py_strip :: "string \<Rightarrow> string" where
  "py_strip s = rev (dropWhile py_isspace (rev (dropWhile py_isspace s)))"

definition is_digit :: "char \<Rightarrow> bool" where
  "is_digit c = (48 \<le> (of_char c :: nat) \<and> (of_char c :: nat) \<le> 57)"

definition digit_val :: "char \<Rightarrow> int" where
  "digit_val c = int (of_char c) - 48"

fun digits_val :: "int \<Rightarrow> string \<Rightarrow> int option" where
  "digits_val acc [] = Some acc"
| "digits_val acc [c] = (if is_digit c then Some (acc * 10 + digit_val c) else None)"
| "digits_val acc (c # d # cs) =
     (if is_digit c then digits_val (acc * 10 + digit_val c) (d # cs)
      else if c = CHR ''_'' \<and> is_digit d then digits_val (acc * 10 + digit_val d) cs
      else None)"

definition py_int :: "string \<Rightarrow> int option" where
  "py_int s =
     (let t = py_strip (to_ascii s);
          neg = (case t of c # _ \<Rightarrow> c = CHR ''-'' | [] \<Rightarrow> False);
          body = (case t of c # r \<Rightarrow> if c = CHR ''-'' \<or> c = CHR ''+'' then r else t | [] \<Rightarrow> [])
      in case body of
           [] \<Rightarrow> None
         | c # r \<Rightarrow>
             if is_digit c \<and> int (length (filter is_digit body)) \<le> 4300
             then map_option (\<lambda>v. if neg then - v else v) (digits_val (digit_val c) r)
             else None)"

text \<open>Formatting of an integer inside an f-string.\<close>

fun str_digits :: "nat \<Rightarrow> nat \<Rightarrow> string" where
  "str_digits 0 n = []"
| "str_digits (Suc fuel) n =
     (if n < 10 then [char_of (48 + n)]
      else str_digits fuel (n div 10) @ [char_of (48 + n mod 10)])"

definition str_int :: "int \<Rightarrow> string" where
  "str_int i =
     (if i < 0 then CHR ''-'' # str_digits (Suc (nat (- i))) (nat (- i))
      else str_digits (Suc (nat i)) (nat i))"

subsection \<open>Tensors and the weight dictionary\<close>

text \<open>A tensor is its shape. \<^verbatim>\<open>t.size(d)\<close> raises IndexError when \<open>d\<close> is out of range.\<close>

type_synonym tensor = "nat list"

definition tensor_size :: "tensor \<Rightarrow> nat \<Rightarrow> error + nat" where
  "tensor_size t d =
     (if d < length t then Inr (t ! d) else Inl (IndexError ''Dimension out of range''))"

text \<open>
  The dictionary \<^verbatim>\<open>mm_state_dict\<close> in insertion order; \<^verbatim>\<open>keys()\<close> iterates in that
  order and \<^verbatim>\<open>d[key]\<close> is the value stored under the key.
\<close>

type_synonym state_dict = "(string \<times> tensor) list"

definition dict_keys :: "state_dict \<Rightarrow> string list" where
  "dict_keys d = map fst d"

definition dict_get :: "state_dict \<Rightarrow> string \<Rightarrow> error + tensor" where
  "dict_get d k = (case map_of d k of None \<Rightarrow> Inl (KeyError k) | Some t \<Rightarrow> Inr t)"

subsection \<open>The three validators\<close>

definition pos_suffix :: string where
  "pos_suffix = ''pos_encoder.positional_encoding''"

fun max_len_loop :: "state_dict \<Rightarrow> string list \<Rightarrow> string \<Rightarrow> error + nat" where
  "max_len_loop d [] mm_type =
     Inl (MotionCompatibilityError
       (''No pos_encoder.positional_encoding found in mm_state_dict - '' @ mm_type @
        '' is not a valid HotShotXL motion module!''))"
| "max_len_loop d (key # keys) mm_type =
     (if endswith key pos_suffix
      then (case dict_get d key of Inl e \<Rightarrow> Inl e | Inr t \<Rightarrow> tensor_size t 1)
      else max_len_loop d keys mm_type)"

definition get_hsxl_temporal_position_encoding_max_len :: "state_dict \<Rightarrow> string \<Rightarrow> error + nat" where
  "get_hsxl_temporal_position_encoding_max_len mm_state_dict mm_type =
     max_len_loop mm_state_dict (dict_keys mm_state_dict) mm_type"

text \<open>
  The scan of \<^verbatim>\<open>validate_hsxl_block_count\<close>. \<^verbatim>\<open>key.split(".")[1]\<close> raises IndexError
  on a key with no dot, which the \<^verbatim>\<open>except ValueError\<close> does not catch; a segment that
  \<^verbatim>\<open>int\<close> rejects is skipped.
\<close>

fun block_count_loop :: "string list \<Rightarrow> int \<Rightarrow> error + int" where
  "block_count_loop [] biggest_block = Inr biggest_block"
| "block_count_loop (key # keys) biggest_block =
     (if py_in ''down_blocks'' key then
        (case split_dot key of
           _ # block_int # _ \<Rightarrow>
             (case py_int block_int of
                Some block_num \<Rightarrow>
                  block_count_loop keys
                    (if block_num > biggest_block then block_num else biggest_block)
              | None \<Rightarrow> block_count_loop keys biggest_block)
         | _ \<Rightarrow> Inl (IndexError ''list index out of range''))
      else block_count_loop keys biggest_block)"

definition validate_hsxl_block_count :: "state_dict \<Rightarrow> string \<Rightarrow> error + unit" where
  "validate_hsxl_block_count mm_state_dict mm_type =
     (case block_count_loop (dict_keys mm_state_dict) 0 of
        Inl e \<Rightarrow> Inl e
      | Inr biggest_block \<Rightarrow>
          if biggest_block \<noteq> 2
          then Inl (MotionCompatibilityError
                 (''Expected biggest down_block to be 2, but was '' @ str_int biggest_block @
                  '' - '' @ mm_type @ '' is not a valid HotShotXL motion module!''))
          else Inr ())"

fun has_mid_block_loop :: "string list \<Rightarrow> bool" where
  "has_mid_block_loop [] = False"
| "has_mid_block_loop (key # keys) =
     (if startswith key ''mid_block.'' \<and> py_in ''temporal'' key then True
      else has_mid_block_loop keys)"

definition has_mid_block :: "state_dict \<Rightarrow> bool" where
  "has_mid_block mm_state_dict = has_mid_block_loop (dict_keys mm_state_dict)"

subsection \<open>Computations that log what they do\<close>

text \<open>
  A computation returns the list of events it went through together with its result,
  an exception or a value. An exception ends the computation and keeps the events
  logged before it.
\<close>

type_synonym ('e, 'a) M = "'e list \<times> (error + 'a)"

definition ret :: "'a \<Rightarrow> ('e, 'a) M" where
  "ret x = ([], Inr x)"

definition raise :: "error \<Rightarrow> ('e, 'a) M" where
  "raise e = ([], Inl e)"

definition log_event :: "'e \<Rightarrow> ('e, unit) M" where
  "log_event ev = ([ev], Inr ())"

definition lift :: "error + 'a \<Rightarrow> ('e, 'a) M" where
  "lift r = ([], r)"

definition bind_m :: "('e, 'a) M \<Rightarrow> ('a \<Rightarrow> ('e, 'b) M) \<Rightarrow> ('e, 'b) M" where
  "bind_m m f =
     (case m of
        (l, Inl e) \<Rightarrow> (l, Inl e)
      | (l, Inr x) \<Rightarrow> (case f x of (l', r) \<Rightarrow> (l @ l', r)))"

definition events :: "('e, 'a) M \<Rightarrow> 'e list" where
  "events m = fst m"

definition result :: "('e, 'a) M \<Rightarrow> error + 'a" where
  "result m = snd m"

subsection \<open>The module tree\<close>

text \<open>
  \<^verbatim>\<open>BlockType\<close>, \<^verbatim>\<open>InjectorVersion\<close> and \<^verbatim>\<open>MotionLoRAInfo\<close> come from
  \<^verbatim>\<open>motion_utils\<close> and \<^verbatim>\<open>motion_lora\<close>; only their constants are used here.
\<close>

datatype BlockType = UP | MID | DOWN

datatype InjectorVersion = HOTSHOTXL_V1

datatype MotionLoRAInfo = MotionLoRAInfo string real

text \<open>The buffer \<^verbatim>\<open>positional_encoding\<close> has shape \<open>[1, max_length, d]\<close> for dimension \<open>d\<close>.\<close>

record PositionalEncoding =
  positional_encoding :: tensor

definition PositionalEncoding_init :: "nat \<Rightarrow> nat \<Rightarrow> PositionalEncoding" where
  "PositionalEncoding_init d max_length = \<lparr> positional_encoding = [1, max_length, d] \<rparr>"

text \<open>
  \<^verbatim>\<open>TemporalAttention\<close> extends \<^verbatim>\<open>CrossAttentionMM\<close>.
  Modelled from the spec: the initialiser of \<^verbatim>\<open>CrossAttentionMM\<close> (in
  \<^verbatim>\<open>motion_utils\<close>) stores its arguments and leaves the explicit scale unset, so
  that attention uses its default internal scale.
\<close>

record TemporalAttention =
  scale :: "real option"
  query_dim :: nat
  context_dim :: "nat option"
  heads :: nat
  dim_head :: nat
  pos_encoder :: PositionalEncoding

definition TemporalAttention_init ::
  "nat \<Rightarrow> nat \<Rightarrow> nat option \<Rightarrow> nat \<Rightarrow> nat \<Rightarrow> TemporalAttention" where
  "TemporalAttention_init max_length q_dim c_dim n_heads d_head =
     \<lparr> scale = None, query_dim = q_dim, context_dim = c_dim, heads = n_heads,
       dim_head = d_head, pos_encoder = PositionalEncoding_init q_dim max_length \<rparr>"

text \<open>\<^verbatim>\<open>norms\<close>, \<^verbatim>\<open>ff\<close> and \<^verbatim>\<open>ff_norm\<close> are kept by the dimension they act on.\<close>

record TransformerBlock =
  is_cross :: bool
  attention_blocks :: "TemporalAttention list"
  norms :: "nat list"
  ff :: nat
  ff_norm :: nat

definition TransformerBlock_init ::
  "nat \<Rightarrow> nat \<Rightarrow> nat \<Rightarrow> nat \<Rightarrow> nat option \<Rightarrow> nat \<Rightarrow> TransformerBlock" where
  "TransformerBlock_init d num_attention_heads attention_head_dim depth cross_attention_dim
       max_length =
     \<lparr> is_cross = (cross_attention_dim \<noteq> None),
       attention_blocks =
         replicate depth
           (TemporalAttention_init max_length d cross_attention_dim num_attention_heads
              attention_head_dim),
       norms = replicate depth d,
       ff = d,
       ff_norm = d \<rparr>"

text \<open>
  Modelled from the spec: \<^verbatim>\<open>temporal_transformer_init(default_length)\<close> of
  \<^verbatim>\<open>TemporalTransformerGeneric\<close> (in \<^verbatim>\<open>motion_utils\<close>) sets the video length and the
  full length to the default, the clamp range to \<open>(1, 1)\<close>, and leaves the mask and the
  sub-sequence indices unset. \<^verbatim>\<open>norm\<close> is the field \<open>norm_layer\<close>, kept as (groups, channels), the two linear
  projections as (in features, out features).
\<close>

record TransformerTemporal =
  video_length :: nat
  full_length :: nat
  scale_min :: real
  scale_max :: real
  raw_scale_mask :: "tensor option"
  temp_scale_mask :: "tensor option"
  sub_idxs :: "int list option"
  norm_layer :: "nat \<times> nat"
  proj_in :: "nat \<times> nat"
  transformer_blocks :: "TransformerBlock list"
  proj_out :: "nat \<times> nat"

definition TransformerTemporal_init ::
  "nat \<Rightarrow> nat \<Rightarrow> nat \<Rightarrow> nat \<Rightarrow> nat \<Rightarrow> nat option \<Rightarrow> nat \<Rightarrow> TransformerTemporal" where
  "TransformerTemporal_init num_attention_heads attention_head_dim in_channels num_layers
       norm_num_groups cross_attention_dim max_length =
     (let inner_dim = num_attention_heads * attention_head_dim in
      \<lparr> video_length = 8, full_length = 8, scale_min = 1, scale_max = 1,
        raw_scale_mask = None, temp_scale_mask = None, sub_idxs = None,
        norm_layer = (norm_num_groups, in_channels),
        proj_in = (in_channels, inner_dim),
        transformer_blocks =
          replicate num_layers
            (TransformerBlock_init inner_dim num_attention_heads attention_head_dim 2
               cross_attention_dim max_length),
        proj_out = (inner_dim, in_channels) \<rparr>)"

text \<open>The call leaves \<^verbatim>\<open>num_layers\<close>, \<^verbatim>\<open>norm_num_groups\<close> and \<^verbatim>\<open>cross_attention_dim\<close> at
  their defaults 1, 32 and None.\<close>

definition get_transformer_temporal :: "nat \<Rightarrow> nat \<Rightarrow> TransformerTemporal" where
  "get_transformer_temporal in_channels max_length =
     (let num_attention_heads = 8 in
      TransformerTemporal_init num_attention_heads (in_channels div num_attention_heads)
        in_channels 1 32 None max_length)"

record HotShotXLMotionModule =
  temporal_attentions :: "TransformerTemporal list"

text \<open>Argument values of the calls that build a module.\<close>

datatype pyval = PInt nat | PBlockType BlockType

definition HotShotXLMotionModule_init :: "nat \<Rightarrow> pyval \<Rightarrow> nat \<Rightarrow> HotShotXLMotionModule" where
  "HotShotXLMotionModule_init in_channels block_type max_length =
     (if block_type = PBlockType MID
      then \<lparr> temporal_attentions = [get_transformer_temporal in_channels max_length] \<rparr>
      else
        (let tas = [get_transformer_temporal in_channels max_length,
                    get_transformer_temporal in_channels max_length]
         in \<lparr> temporal_attentions =
                (if block_type = PBlockType UP
                 then tas @ [get_transformer_temporal in_channels max_length]
                 else tas) \<rparr>))"

subsection \<open>Calling the module's initialiser\<close>

text \<open>
  \<^verbatim>\<open>HotShotXLMotionModule.__init__(self, in_channels, block_type=BlockType.DOWN, max_length=24)\<close>
  is called with positional and keyword arguments. Python binds the positional
  arguments to the parameters in order and each keyword argument to the parameter of
  that name; a keyword that names no parameter, or one bound already, raises TypeError
  before the body runs.
\<close>

fun bind_keywords ::
  "string list \<Rightarrow> (string \<times> pyval) list \<Rightarrow> (string \<times> pyval) list \<Rightarrow>
     error + (string \<times> pyval) list" where
  "bind_keywords params bound [] = Inr bound"
| "bind_keywords params bound ((k, v) # kwargs) =
     (if k \<notin> set params
      then Inl (TypeError (''__init__() got an unexpected keyword argument '' @ k))
      else if k \<in> set (map fst bound)
      then Inl (TypeError (''__init__() got multiple values for argument '' @ k))
      else bind_keywords params (bound @ [(k, v)]) kwargs)"

definition bind_arguments ::
  "string list \<Rightarrow> pyval list \<Rightarrow> (string \<times> pyval) list \<Rightarrow> error + (string \<times> pyval) list" where
  "bind_arguments params args kwargs =
     (if length params < length args
      then Inl (TypeError ''__init__() takes fewer positional arguments than were given'')
      else bind_keywords params (zip params args) kwargs)"

datatype init_event =
    Ev_get_max_len
  | Ev_validate_block_count
  | Ev_has_mid_block
  | Ev_module_init nat pyval nat

fun is_module_init :: "init_event \<Rightarrow> bool" where
  "is_module_init (Ev_module_init c b l) = True"
| "is_module_init ev = False"

text \<open>
  The expression \<^verbatim>\<open>HotShotXLMotionModule(*args, **kwargs)\<close>. The event is logged when
  the body of the initialiser starts. An \<^verbatim>\<open>in_channels\<close> or \<^verbatim>\<open>max_length\<close> that is not
  an integer fails in the arithmetic of the body.
\<close>

definition HotShotXLMotionModule_call ::
  "pyval list \<Rightarrow> (string \<times> pyval) list \<Rightarrow> (init_event, HotShotXLMotionModule) M" where
  "HotShotXLMotionModule_call args kwargs =
     (case bind_arguments [''in_channels'', ''block_type'', ''max_length''] args kwargs of
        Inl e \<Rightarrow> raise e
      | Inr bound \<Rightarrow>
          (case map_of bound ''in_channels'' of
             None \<Rightarrow>
               raise (TypeError ''__init__() missing 1 required positional argument: in_channels'')
           | Some (PBlockType _) \<Rightarrow> raise (TypeError ''unsupported operand type(s) for //'')
           | Some (PInt in_channels) \<Rightarrow>
               (let block_type =
                      (case map_of bound ''block_type'' of
                         None \<Rightarrow> PBlockType DOWN | Some b \<Rightarrow> b)
                in case (case map_of bound ''max_length'' of None \<Rightarrow> PInt 24 | Some l \<Rightarrow> l) of
                     PBlockType _ \<Rightarrow> raise (TypeError ''max_length is not an integer'')
                   | PInt max_length \<Rightarrow>
                       bind_m (log_event (Ev_module_init in_channels block_type max_length))
                         (\<lambda>_. ret (HotShotXLMotionModule_init in_channels block_type
                                     max_length)))))"

subsection \<open>The wrapper\<close>

record HotShotXLMotionWrapper =
  down_blocks :: "HotShotXLMotionModule list"
  up_blocks :: "HotShotXLMotionModule list"
  mid_block :: "HotShotXLMotionModule option"
  encoding_max_len :: nat
  mm_hash :: string
  mm_name :: string
  version :: string
  injector_version :: InjectorVersion
  AD_video_length :: nat
  loras :: "MotionLoRAInfo list option"

text \<open>One of the two \<^verbatim>\<open>for c in (...)\<close> loops: each round builds a module and appends it.\<close>

fun append_modules ::
  "nat list \<Rightarrow> BlockType \<Rightarrow> nat \<Rightarrow> HotShotXLMotionModule list \<Rightarrow>
     (init_event, HotShotXLMotionModule list) M" where
  "append_modules [] block_type max_length blocks = ret blocks"
| "append_modules (c # cs) block_type max_length blocks =
     bind_m
       (HotShotXLMotionModule_call [PInt c]
          [(''block_type'', PBlockType block_type), (''max_length'', PInt max_length)])
       (\<lambda>m. append_modules cs block_type max_length (blocks @ [m]))"

text \<open>
  \<^verbatim>\<open>HotShotXLMotionWrapper.__init__\<close>, statement by statement. The initialiser of the
  base class \<^verbatim>\<open>GenericMotionWrapper\<close> (in \<^verbatim>\<open>motion_utils\<close>) only stores its arguments,
  which the body stores again. Each validator logs an event when it is called. The
  middle module is requested with the keyword \<^verbatim>\<open>BlockType\<close>, as the source writes it.
\<close>

definition HotShotXLMotionWrapper_init ::
  "state_dict \<Rightarrow> string \<Rightarrow> string \<Rightarrow> MotionLoRAInfo list option \<Rightarrow>
     (init_event, HotShotXLMotionWrapper) M" where
  "HotShotXLMotionWrapper_init mm_state_dict hash name lora_list =
     bind_m (log_event Ev_get_max_len) (\<lambda>_.
     bind_m (lift (get_hsxl_temporal_position_encoding_max_len mm_state_dict name)) (\<lambda>max_len.
     bind_m (log_event Ev_validate_block_count) (\<lambda>_.
     bind_m (lift (validate_hsxl_block_count mm_state_dict name)) (\<lambda>_.
     bind_m (append_modules [320, 640, 1280] DOWN max_len []) (\<lambda>downs.
     bind_m (append_modules [1280, 640, 320] UP max_len []) (\<lambda>ups.
     bind_m (log_event Ev_has_mid_block) (\<lambda>_.
     bind_m
       (if has_mid_block mm_state_dict
        then bind_m
               (HotShotXLMotionModule_call [PInt 1280]
                  [(''BlockType'', PBlockType MID), (''max_length'', PInt max_len)])
               (\<lambda>m. ret (Some m))
        else ret None) (\<lambda>mid.
     ret \<lparr> down_blocks = downs, up_blocks = ups, mid_block = mid,
           encoding_max_len = max_len, mm_hash = hash, mm_name = name,
           version = (if mid = None then ''HSXL v1'' else ''HSXL v2''),
           injector_version = HOTSHOTXL_V1, AD_video_length = 8,
           loras = lora_list \<rparr>))))))))"

definition has_loras :: "HotShotXLMotionWrapper \<Rightarrow> bool" where
  "has_loras self = (loras self \<noteq> None)"

subsection \<open>Setters\<close>

text \<open>
  \<^verbatim>\<open>math.isclose(a, b)\<close> with its default tolerances \<^verbatim>\<open>rel_tol=1e-09\<close> and
  \<^verbatim>\<open>abs_tol=0.0\<close>, read over the real numbers.
\<close>

definition isclose :: "real \<Rightarrow> real \<Rightarrow> bool" where
  "isclose a b =
     (a = b \<or> \<bar>b - a\<bar> \<le> \<bar>(1 / 1000000000) * b\<bar> \<or> \<bar>b - a\<bar> \<le> \<bar>(1 / 1000000000) * a\<bar>
      \<or> \<bar>b - a\<bar> \<le> 0)"

definition TemporalAttention_set_scale_multiplier ::
  "real option \<Rightarrow> TemporalAttention \<Rightarrow> TemporalAttention" where
  "TemporalAttention_set_scale_multiplier multiplier self =
     (case multiplier of
        None \<Rightarrow> self\<lparr>scale := None\<rparr>
      | Some m \<Rightarrow> if isclose m 1 then self\<lparr>scale := None\<rparr> else self\<lparr>scale := Some m\<rparr>)"

definition TransformerBlock_set_scale_multiplier ::
  "real option \<Rightarrow> TransformerBlock \<Rightarrow> TransformerBlock" where
  "TransformerBlock_set_scale_multiplier multiplier self =
     self\<lparr>attention_blocks :=
            map (TemporalAttention_set_scale_multiplier multiplier) (attention_blocks self)\<rparr>"

definition TransformerTemporal_set_video_length ::
  "nat \<Rightarrow> nat \<Rightarrow> TransformerTemporal \<Rightarrow> TransformerTemporal" where
  "TransformerTemporal_set_video_length v f self = self\<lparr>video_length := v, full_length := f\<rparr>"

definition TransformerTemporal_set_scale_multiplier ::
  "real option \<Rightarrow> TransformerTemporal \<Rightarrow> TransformerTemporal" where
  "TransformerTemporal_set_scale_multiplier multiplier self =
     self\<lparr>transformer_blocks :=
            map (TransformerBlock_set_scale_multiplier multiplier) (transformer_blocks self)\<rparr>"

definition TransformerTemporal_set_masks ::
  "tensor option \<Rightarrow> real \<Rightarrow> real \<Rightarrow> TransformerTemporal \<Rightarrow> TransformerTemporal" where
  "TransformerTemporal_set_masks masks min_val max_val self =
     self\<lparr>scale_min := min_val, scale_max := max_val, raw_scale_mask := masks\<rparr>"

definition TransformerTemporal_set_sub_idxs ::
  "int list option \<Rightarrow> TransformerTemporal \<Rightarrow> TransformerTemporal" where
  "TransformerTemporal_set_sub_idxs idxs self = self\<lparr>sub_idxs := idxs\<rparr>"

text \<open>
  Modelled from the spec: \<^verbatim>\<open>reset_temp_vars\<close> of \<^verbatim>\<open>TemporalTransformerGeneric\<close> (in
  \<^verbatim>\<open>motion_utils\<close>) drops the per-run temporary state, the cached scale mask.
\<close>

definition TransformerTemporal_reset_temp_vars :: "TransformerTemporal \<Rightarrow> TransformerTemporal" where
  "TransformerTemporal_reset_temp_vars self = self\<lparr>temp_scale_mask := None\<rparr>"

text \<open>A module hands every setter to each of its children, in list order.\<close>

definition for_each_tt ::
  "(TransformerTemporal \<Rightarrow> TransformerTemporal) \<Rightarrow> HotShotXLMotionModule \<Rightarrow>
     HotShotXLMotionModule" where
  "for_each_tt f self = self\<lparr>temporal_attentions := map f (temporal_attentions self)\<rparr>"

definition HotShotXLMotionModule_set_video_length ::
  "nat \<Rightarrow> nat \<Rightarrow> HotShotXLMotionModule \<Rightarrow> HotShotXLMotionModule" where
  "HotShotXLMotionModule_set_video_length v f = for_each_tt (TransformerTemporal_set_video_length v f)"

definition HotShotXLMotionModule_set_scale_multiplier ::
  "real option \<Rightarrow> HotShotXLMotionModule \<Rightarrow> HotShotXLMotionModule" where
  "HotShotXLMotionModule_set_scale_multiplier multiplier =
     for_each_tt (TransformerTemporal_set_scale_multiplier multiplier)"

definition HotShotXLMotionModule_set_masks ::
  "tensor option \<Rightarrow> real \<Rightarrow> real \<Rightarrow> HotShotXLMotionModule \<Rightarrow> HotShotXLMotionModule" where
  "HotShotXLMotionModule_set_masks masks min_val max_val =
     for_each_tt (TransformerTemporal_set_masks masks min_val max_val)"

definition HotShotXLMotionModule_set_sub_idxs ::
  "int list option \<Rightarrow> HotShotXLMotionModule \<Rightarrow> HotShotXLMotionModule" where
  "HotShotXLMotionModule_set_sub_idxs idxs = for_each_tt (TransformerTemporal_set_sub_idxs idxs)"

definition HotShotXLMotionModule_reset_temp_vars ::
  "HotShotXLMotionModule \<Rightarrow> HotShotXLMotionModule" where
  "HotShotXLMotionModule_reset_temp_vars = for_each_tt TransformerTemporal_reset_temp_vars"

text \<open>
  The wrapper hands every setter to the down modules, the up modules and, when there
  is one, the middle module.
\<close>

definition for_each_block ::
  "(HotShotXLMotionModule \<Rightarrow> HotShotXLMotionModule) \<Rightarrow> HotShotXLMotionWrapper \<Rightarrow>
     HotShotXLMotionWrapper" where
  "for_each_block f self =
     self\<lparr>down_blocks := map f (down_blocks self),
          up_blocks := map f (up_blocks self),
          mid_block := map_option f (mid_block self)\<rparr>"

definition set_video_length :: "nat \<Rightarrow> nat \<Rightarrow> HotShotXLMotionWrapper \<Rightarrow> HotShotXLMotionWrapper" where
  "set_video_length v f self =
     for_each_block (HotShotXLMotionModule_set_video_length v f) (self\<lparr>AD_video_length := v\<rparr>)"

definition set_scale_multiplier ::
  "real option \<Rightarrow> HotShotXLMotionWrapper \<Rightarrow> HotShotXLMotionWrapper" where
  "set_scale_multiplier multiplier self =
     for_each_block (HotShotXLMotionModule_set_scale_multiplier multiplier) self"

definition set_masks ::
  "tensor option \<Rightarrow> real \<Rightarrow> real \<Rightarrow> HotShotXLMotionWrapper \<Rightarrow> HotShotXLMotionWrapper" where
  "set_masks masks min_val max_val self =
     for_each_block (HotShotXLMotionModule_set_masks masks min_val max_val) self"

definition set_sub_idxs :: "int list option \<Rightarrow> HotShotXLMotionWrapper \<Rightarrow> HotShotXLMotionWrapper" where
  "set_sub_idxs idxs self = for_each_block (HotShotXLMotionModule_set_sub_idxs idxs) self"

definition reset_temp_vars :: "HotShotXLMotionWrapper \<Rightarrow> HotShotXLMotionWrapper" where
  "reset_temp_vars self = for_each_block HotShotXLMotionModule_reset_temp_vars self"

subsection \<open>Shapes under the tensor operations of the forward pass\<close>

definition numel :: "tensor \<Rightarrow> nat" where
  "numel t = prod_list t"

text \<open>
  \<^verbatim>\<open>a + b\<close> broadcasts: the shapes are aligned at their last dimension, and two sizes
  agree when they are equal or one of them is 1.
\<close>

fun broadcast_rev :: "nat list \<Rightarrow> nat list \<Rightarrow> error + nat list" where
  "broadcast_rev [] ys = Inr ys"
| "broadcast_rev (x # xs) [] = Inr (x # xs)"
| "broadcast_rev (x # xs) (y # ys) =
     (if x = y \<or> y = 1 then
        (case broadcast_rev xs ys of Inl e \<Rightarrow> Inl e | Inr r \<Rightarrow> Inr (x # r))
      else if x = 1 then
        (case broadcast_rev xs ys of Inl e \<Rightarrow> Inl e | Inr r \<Rightarrow> Inr (y # r))
      else Inl (RuntimeError ''The size of tensor a must match the size of tensor b''))"

definition tensor_add :: "tensor \<Rightarrow> tensor \<Rightarrow> error + tensor" where
  "tensor_add a b =
     (case broadcast_rev (rev a) (rev b) of Inl e \<Rightarrow> Inl e | Inr r \<Rightarrow> Inr (rev r))"

definition reshape :: "tensor \<Rightarrow> tensor \<Rightarrow> error + tensor" where
  "reshape t new_shape =
     (if numel t = numel new_shape then Inr new_shape
      else Inl (RuntimeError ''shape is invalid for input size''))"

definition permute :: "tensor \<Rightarrow> nat list \<Rightarrow> error + tensor" where
  "permute t dims =
     (if length dims = length t \<and> distinct dims \<and> list_all (\<lambda>i. i < length t) dims
      then Inr (map (\<lambda>i. t ! i) dims)
      else Inl (RuntimeError ''permute: dims do not match the input''))"

text \<open>\<^verbatim>\<open>nn.Linear(i, o)\<close> and \<^verbatim>\<open>nn.LayerNorm(d)\<close> act on the last dimension.\<close>

definition linear :: "nat \<times> nat \<Rightarrow> tensor \<Rightarrow> error + tensor" where
  "linear io t =
     (case rev t of
        [] \<Rightarrow> Inl (RuntimeError ''linear: input has no dimension'')
      | n # rest \<Rightarrow>
          if n = fst io then Inr (rev (snd io # rest))
          else Inl (RuntimeError ''mat1 and mat2 shapes cannot be multiplied''))"

definition layer_norm :: "nat \<Rightarrow> tensor \<Rightarrow> error + tensor" where
  "layer_norm d t =
     (case rev t of
        [] \<Rightarrow> Inl (RuntimeError ''layer_norm: input has no dimension'')
      | n # rest \<Rightarrow>
          if n = d then Inr t
          else Inl (RuntimeError ''layer_norm: input does not end in the normalized shape''))"

text \<open>
  Modelled from the spec: the group normalisation \<^verbatim>\<open>GroupNormAD\<close> (in
  \<^verbatim>\<open>motion_utils\<close>) normalises over the channels and keeps the shape. As a group
  normalisation it is taken to reject an input whose channel count is not the configured
  one, a channel count that its groups do not divide, and an input with a single value
  per group.
\<close>

definition group_norm :: "nat \<times> nat \<Rightarrow> tensor \<Rightarrow> error + tensor" where
  "group_norm gc t =
     (case t of
        b # c # rest \<Rightarrow>
          if c \<noteq> snd gc \<or> fst gc = 0 \<or> c mod fst gc \<noteq> 0
          then Inl (RuntimeError ''group_norm: channels do not match'')
          else if (b * c div fst gc) * prod_list rest = 1
          then Inl (ValueError ''Expected more than 1 value per channel'')
          else Inr t
      | _ \<Rightarrow> Inl (RuntimeError ''group_norm: expected at least 2 dimensions''))"

text \<open>
  Modelled from the spec: the feed-forward capability \<^verbatim>\<open>FeedForward(dim)\<close> of the host
  maps the last dimension \<open>dim\<close> to itself.
\<close>

definition feed_forward :: "nat \<Rightarrow> tensor \<Rightarrow> error + tensor" where
  "feed_forward d t = linear (d, d) t"

text \<open>
  \<^verbatim>\<open>rearrange(x, "(b f) s c -> (b s) f c", f=f)\<close> and
  \<^verbatim>\<open>rearrange(x, "(b s) f c -> (b f) s c", s=s)\<close>: the first axis must split into
  groups of the given length.
\<close>

definition rearrange_frames :: "tensor \<Rightarrow> nat \<Rightarrow> error + tensor" where
  "rearrange_frames t f =
     (case t of
        [bf, s, c] \<Rightarrow>
          if f = 0 \<or> bf mod f \<noteq> 0
          then Inl (EinopsError ''Shape mismatch, cannot divide axis into chunks'')
          else Inr [(bf div f) * s, f, c]
      | _ \<Rightarrow> Inl (EinopsError ''Wrong shape: expected 3 dims''))"

definition rearrange_back :: "tensor \<Rightarrow> nat \<Rightarrow> error + tensor" where
  "rearrange_back t s =
     (case t of
        [bs, f, c] \<Rightarrow>
          if s = 0 \<or> bs mod s \<noteq> 0
          then Inl (EinopsError ''Shape mismatch, cannot divide axis into chunks'')
          else Inr [(bs div s) * f, s, c]
      | _ \<Rightarrow> Inl (EinopsError ''Wrong shape: expected 3 dims''))"

text \<open>\<^verbatim>\<open>repeat(x, "b n c -> (b s) n c", s=s)\<close>.\<close>

definition repeat_context :: "tensor \<Rightarrow> nat \<Rightarrow> error + tensor" where
  "repeat_context t s =
     (case t of
        [b, n, c] \<Rightarrow> Inr [b * s, n, c]
      | _ \<Rightarrow> Inl (EinopsError ''Wrong shape: expected 3 dims''))"

subsection \<open>The forward pass\<close>

text \<open>
  The encoder context is a tensor together with the truth value of its single element,
  which \<^verbatim>\<open>if encoder_hidden_states:\<close> reads; on a tensor that does not hold exactly one
  element the test raises. The event marks the statement inside that \<^verbatim>\<open>if\<close>.
\<close>

type_synonym encoder_context = "tensor \<times> bool"

datatype fwd_event = Ev_repeat_context

definition PositionalEncoding_forward ::
  "PositionalEncoding \<Rightarrow> tensor \<Rightarrow> nat \<Rightarrow> error + tensor" where
  "PositionalEncoding_forward self hidden_states len =
     (case positional_encoding self of
        [one, max_length, d] \<Rightarrow> tensor_add hidden_states [one, min len max_length, d]
      | _ \<Rightarrow> Inl (IndexError ''too many indices for tensor''))"

text \<open>
  Modelled from the spec: the attention capability \<^verbatim>\<open>CrossAttentionMM.forward\<close> (in
  \<^verbatim>\<open>motion_utils\<close>) takes the query, an optional context, a mask and a scale mask, and
  returns a tensor shaped as the query.
\<close>

definition CrossAttentionMM_forward ::
  "tensor \<Rightarrow> tensor option \<Rightarrow> tensor option \<Rightarrow> tensor option \<Rightarrow> error + tensor" where
  "CrossAttentionMM_forward x ctx attention_mask scale_mask = Inr x"

definition TemporalAttention_forward ::
  "TemporalAttention \<Rightarrow> tensor \<Rightarrow> encoder_context option \<Rightarrow> tensor option \<Rightarrow> nat \<Rightarrow> tensor option \<Rightarrow>
     (fwd_event, tensor) M" where
  "TemporalAttention_forward self hidden_states encoder_hidden_states attention_mask
       number_of_frames scale_mask =
     bind_m (lift (tensor_size hidden_states 1)) (\<lambda>sequence_length.
     bind_m (lift (rearrange_frames hidden_states number_of_frames)) (\<lambda>hs1.
     bind_m (lift (PositionalEncoding_forward (pos_encoder self) hs1 number_of_frames)) (\<lambda>hs2.
     bind_m
       (case encoder_hidden_states of
          None \<Rightarrow> ret None
        | Some (ctx, truth) \<Rightarrow>
            if numel ctx \<noteq> 1
            then raise (RuntimeError ''Boolean value of Tensor is ambiguous'')
            else if truth
            then bind_m (log_event Ev_repeat_context) (\<lambda>_.
                 bind_m (lift (repeat_context ctx sequence_length)) (\<lambda>r. ret (Some r)))
            else ret (Some ctx)) (\<lambda>ehs.
     bind_m (lift (CrossAttentionMM_forward hs2 ehs attention_mask scale_mask)) (\<lambda>hs3.
     lift (rearrange_back hs3 sequence_length))))))"

text \<open>The loop over \<^verbatim>\<open>zip(self.attention_blocks, self.norms)\<close>.\<close>

fun attention_loop ::
  "(TemporalAttention \<times> nat) list \<Rightarrow> tensor \<Rightarrow> encoder_context option \<Rightarrow> tensor option \<Rightarrow> nat \<Rightarrow>
     tensor option \<Rightarrow> (fwd_event, tensor) M" where
  "attention_loop [] hidden_states ehs attention_mask number_of_frames scale_mask =
     ret hidden_states"
| "attention_loop ((block, nrm) # rest) hidden_states ehs attention_mask number_of_frames
       scale_mask =
     bind_m (lift (layer_norm nrm hidden_states)) (\<lambda>norm_hidden_states.
     bind_m (TemporalAttention_forward block norm_hidden_states ehs attention_mask
               number_of_frames scale_mask) (\<lambda>a.
     bind_m (lift (tensor_add a hidden_states)) (\<lambda>hs'.
     attention_loop rest hs' ehs attention_mask number_of_frames scale_mask)))"

definition TransformerBlock_forward ::
  "TransformerBlock \<Rightarrow> tensor \<Rightarrow> encoder_context option \<Rightarrow> tensor option \<Rightarrow> nat \<Rightarrow> tensor option \<Rightarrow>
     (fwd_event, tensor) M" where
  "TransformerBlock_forward self hidden_states encoder_hidden_states attention_mask
       number_of_frames scale_mask =
     (let ehs = (if \<not> is_cross self then None else encoder_hidden_states) in
      bind_m (attention_loop (zip (attention_blocks self) (norms self)) hidden_states ehs
                attention_mask number_of_frames scale_mask) (\<lambda>hs.
      bind_m (lift (layer_norm (ff_norm self) hs)) (\<lambda>norm_hidden_states.
      bind_m (lift (feed_forward (ff self) norm_hidden_states)) (\<lambda>f.
      lift (tensor_add f hs)))))"

text \<open>
  Modelled from the spec: \<^verbatim>\<open>get_scale_mask\<close> of \<^verbatim>\<open>TemporalTransformerGeneric\<close> (in
  \<^verbatim>\<open>motion_utils\<close>) returns null when no mask is set and a mask derived from the stored
  one otherwise; only its presence is kept here.
\<close>

definition get_scale_mask :: "TransformerTemporal \<Rightarrow> tensor \<Rightarrow> tensor option" where
  "get_scale_mask self hidden_states = raw_scale_mask self"

text \<open>The loop over \<^verbatim>\<open>self.transformer_blocks\<close>.\<close>

fun blocks_loop ::
  "TransformerBlock list \<Rightarrow> tensor \<Rightarrow> encoder_context option \<Rightarrow> tensor option \<Rightarrow> nat \<Rightarrow>
     tensor option \<Rightarrow> (fwd_event, tensor) M" where
  "blocks_loop [] hidden_states ehs attention_mask number_of_frames scale_mask =
     ret hidden_states"
| "blocks_loop (block # rest) hidden_states ehs attention_mask number_of_frames scale_mask =
     bind_m (TransformerBlock_forward block hidden_states ehs attention_mask number_of_frames
               scale_mask) (\<lambda>hs'.
     blocks_loop rest hs' ehs attention_mask number_of_frames scale_mask)"

definition TransformerTemporal_forward ::
  "TransformerTemporal \<Rightarrow> tensor \<Rightarrow> encoder_context option \<Rightarrow> tensor option \<Rightarrow> (fwd_event, tensor) M" where
  "TransformerTemporal_forward self hidden_states encoder_hidden_states attention_mask =
     (case hidden_states of
        [batch, channel, height, width] \<Rightarrow>
          (let residual = hidden_states;
               scale_mask = get_scale_mask self hidden_states in
           bind_m (lift (group_norm (norm_layer self) hidden_states)) (\<lambda>hs1.
           bind_m (lift (tensor_size hs1 1)) (\<lambda>inner_dim.
           bind_m (lift (permute hs1 [0, 2, 3, 1])) (\<lambda>hs2.
           bind_m (lift (reshape hs2 [batch, height * width, inner_dim])) (\<lambda>hs3.
           bind_m (lift (linear (proj_in self) hs3)) (\<lambda>hs4.
           bind_m (blocks_loop (transformer_blocks self) hs4 encoder_hidden_states
                     attention_mask (video_length self) scale_mask) (\<lambda>hs5.
           bind_m (lift (linear (proj_out self) hs5)) (\<lambda>hs6.
           bind_m (lift (reshape hs6 [batch, height, width, inner_dim])) (\<lambda>hs7.
           bind_m (lift (permute hs7 [0, 3, 1, 2])) (\<lambda>hs8.
           lift (tensor_add hs8 residual)))))))))))
      | _ \<Rightarrow> raise (ValueError ''wrong number of values to unpack from the shape''))"

text \<open>The host sets the per-step state of a \<^verbatim>\<open>TransformerTemporal\<close> through its setters.\<close>

definition configure ::
  "nat \<Rightarrow> nat \<Rightarrow> real option \<Rightarrow> tensor option \<Rightarrow> real \<Rightarrow> real \<Rightarrow> int list option \<Rightarrow>
     TransformerTemporal \<Rightarrow> TransformerTemporal" where
  "configure v fl multiplier masks min_val max_val idxs self =
     TransformerTemporal_set_sub_idxs idxs
       (TransformerTemporal_set_masks masks min_val max_val
          (TransformerTemporal_set_scale_multiplier multiplier
             (TransformerTemporal_set_video_length v fl self)))"

subsection \<open>Observations used in the statements\<close>

text \<open>The events and the wrapper of a construction that passes both validators and finds
  no middle level, for the maximal length \<open>L\<close>.\<close>

definition built_events :: "nat \<Rightarrow> init_event list" where
  "built_events L =
     [Ev_get_max_len, Ev_validate_block_count] @
     map (\<lambda>c. Ev_module_init c (PBlockType DOWN) L) [320, 640, 1280] @
     map (\<lambda>c. Ev_module_init c (PBlockType UP) L) [1280, 640, 320] @
     [Ev_has_mid_block]"

definition built_wrapper ::
  "nat \<Rightarrow> string \<Rightarrow> string \<Rightarrow> MotionLoRAInfo list option \<Rightarrow> HotShotXLMotionWrapper" where
  "built_wrapper L hash name lora_list =
     \<lparr> down_blocks = map (\<lambda>c. HotShotXLMotionModule_init c (PBlockType DOWN) L) [320, 640, 1280],
       up_blocks = map (\<lambda>c. HotShotXLMotionModule_init c (PBlockType UP) L) [1280, 640, 320],
       mid_block = None,
       encoding_max_len = L, mm_hash = hash, mm_name = name,
       version = ''HSXL v1'',
       injector_version = HOTSHOTXL_V1, AD_video_length = 8,
       loras = lora_list \<rparr>"

text \<open>Every module, every \<^verbatim>\<open>TransformerTemporal\<close> and every positional encoder of the tree.\<close>

definition all_modules :: "HotShotXLMotionWrapper \<Rightarrow> HotShotXLMotionModule list" where
  "all_modules w =
     down_blocks w @ up_blocks w @ (case mid_block w of None \<Rightarrow> [] | Some m \<Rightarrow> [m])"

definition block_pos_encoders :: "TransformerBlock \<Rightarrow> PositionalEncoding list" where
  "block_pos_encoders b = map pos_encoder (attention_blocks b)"

definition tt_pos_encoders :: "TransformerTemporal \<Rightarrow> PositionalEncoding list" where
  "tt_pos_encoders tt = concat (map block_pos_encoders (transformer_blocks tt))"

definition module_pos_encoders :: "HotShotXLMotionModule \<Rightarrow> PositionalEncoding list" where
  "module_pos_encoders m = concat (map tt_pos_encoders (temporal_attentions m))"

definition wrapper_pos_encoders :: "HotShotXLMotionWrapper \<Rightarrow> PositionalEncoding list" where
  "wrapper_pos_encoders w = concat (map module_pos_encoders (all_modules w))"

text \<open>A call of one of the five setters of the wrapper.\<close>

datatype setter_call =
    SetVideoLength nat nat
  | SetScaleMultiplier "real option"
  | SetMasks "tensor option" real real
  | SetSubIdxs "int list option"
  | ResetTempVars

fun apply_setter :: "setter_call \<Rightarrow> HotShotXLMotionWrapper \<Rightarrow> HotShotXLMotionWrapper" where
  "apply_setter (SetVideoLength v f) w = set_video_length v f w"
| "apply_setter (SetScaleMultiplier m) w = set_scale_multiplier m w"
| "apply_setter (SetMasks masks min_val max_val) w = set_masks masks min_val max_val w"
| "apply_setter (SetSubIdxs idxs) w = set_sub_idxs idxs w"
| "apply_setter ResetTempVars w = reset_temp_vars w"

text \<open>
  The order the spec states for the construction: the three validators, in their order,
  are all that happens before the first module is built.
\<close>

definition validators_before_modules :: "init_event list \<Rightarrow> bool" where
  "validators_before_modules evs =
     (takeWhile (\<lambda>ev. \<not> is_module_init ev) evs =
        [Ev_get_max_len, Ev_validate_block_count, Ev_has_mid_block])"

text \<open>
  The index the scan of \<^verbatim>\<open>validate_hsxl_block_count\<close> reads off a key: the second of its
  dot-separated segments, when \<^verbatim>\<open>int\<close> accepts it. \<open>down_block_indices\<close> lists the
  indices of the keys that contain the marker.
\<close>

definition key_block_index :: "string \<Rightarrow> int option" where
  "key_block_index key =
     (case split_dot key of _ # block_int # _ \<Rightarrow> py_int block_int | _ \<Rightarrow> None)"

definition down_block_indices :: "string list \<Rightarrow> int list" where
  "down_block_indices keys =
     List.map_filter key_block_index (filter (py_in ''down_blocks'') keys)"

text \<open>
  The spec's wording of the same index: the segment that follows the marker
  \<^verbatim>\<open>down_blocks\<close> in the key, parsed as an integer; and the maximum over the keys of a
  dictionary, \<open>None\<close> when no key gives an index.
\<close>

fun text_after_marker :: "string \<Rightarrow> string option" where
  "text_after_marker [] = None"
| "text_after_marker (c # cs) =
     (if startswith (c # cs) ''down_blocks'' then Some (drop (length ''down_blocks'') (c # cs))
      else text_after_marker cs)"

definition spec_down_index :: "string \<Rightarrow> int option" where
  "spec_down_index key =
     (case text_after_marker key of
        None \<Rightarrow> None
      | Some r \<Rightarrow> (case split_dot r of _ # seg # _ \<Rightarrow> py_int seg | _ \<Rightarrow> None))"

fun spec_max_down_index :: "string list \<Rightarrow> int option" where
  "spec_max_down_index [] = None"
| "spec_max_down_index (key # keys) =
     (case (spec_down_index key, spec_max_down_index keys) of
        (None, m) \<Rightarrow> m
      | (Some i, None) \<Rightarrow> Some i
      | (Some i, Some m) \<Rightarrow> Some (max i m))"

text \<open>The maximal lengths that the construction hands to the modules it builds.\<close>

fun module_init_max_lengths :: "init_event list \<Rightarrow> nat list" where
  "module_init_max_lengths [] = []"
| "module_init_max_lengths (Ev_module_init c b l # evs) = l # module_init_max_lengths evs"
| "module_init_max_lengths (ev # evs) = module_init_max_lengths evs"

section \<open>Properties\<close>

subsection \<open>Construction of the wrapper\<close>

lemma module_call_ok:
  "HotShotXLMotionModule_call [PInt c] [(''block_type'', PBlockType bt), (''max_length'', PInt L)] =
     ([Ev_module_init c (PBlockType bt) L], Inr (HotShotXLMotionModule_init c (PBlockType bt) L))"
  by (simp add: HotShotXLMotionModule_call_def bind_arguments_def bind_m_def log_event_def
      ret_def raise_def Let_def)

lemma module_call_BlockType_keyword:
  "HotShotXLMotionModule_call [PInt c] [(''BlockType'', v), (''max_length'', PInt L)] =
     ([], Inl (TypeError ''__init__() got an unexpected keyword argument BlockType''))"
  by (simp add: HotShotXLMotionModule_call_def bind_arguments_def raise_def)

lemma append_modules_eq:
  "append_modules cs bt L blocks =
     (map (\<lambda>c. Ev_module_init c (PBlockType bt) L) cs,
      Inr (blocks @ map (\<lambda>c. HotShotXLMotionModule_init c (PBlockType bt) L) cs))"
  by (induction cs arbitrary: blocks) (simp_all add: module_call_ok bind_m_def ret_def)

lemma wrapper_init_cases:
  "HotShotXLMotionWrapper_init sd hash name lo =
     (case get_hsxl_temporal_position_encoding_max_len sd name of
        Inl e \<Rightarrow> ([Ev_get_max_len], Inl e)
      | Inr L \<Rightarrow>
          (case validate_hsxl_block_count sd name of
             Inl e \<Rightarrow> ([Ev_get_max_len, Ev_validate_block_count], Inl e)
           | Inr u \<Rightarrow>
               (built_events L,
                if has_mid_block sd
                then Inl (TypeError ''__init__() got an unexpected keyword argument BlockType'')
                else Inr (built_wrapper L hash name lo))))"
  by (simp add: HotShotXLMotionWrapper_init_def append_modules_eq module_call_BlockType_keyword
      bind_m_def log_event_def lift_def ret_def built_events_def built_wrapper_def
      split: sum.splits)

lemma result_init:
  "result (HotShotXLMotionWrapper_init sd hash name lo) =
     (case get_hsxl_temporal_position_encoding_max_len sd name of
        Inl e \<Rightarrow> Inl e
      | Inr L \<Rightarrow>
          (case validate_hsxl_block_count sd name of
             Inl e \<Rightarrow> Inl e
           | Inr u \<Rightarrow>
               if has_mid_block sd
               then Inl (TypeError ''__init__() got an unexpected keyword argument BlockType'')
               else Inr (built_wrapper L hash name lo)))"
  by (simp add: result_def wrapper_init_cases split: sum.splits)

lemma result_init_v1:
  "get_hsxl_temporal_position_encoding_max_len sd name = Inr L \<Longrightarrow>
   validate_hsxl_block_count sd name = Inr () \<Longrightarrow> \<not> has_mid_block sd \<Longrightarrow>
   result (HotShotXLMotionWrapper_init sd hash name lo) = Inr (built_wrapper L hash name lo)"
  by (simp add: result_init)

lemma events_init:
  "events (HotShotXLMotionWrapper_init sd hash name lo) =
     (case get_hsxl_temporal_position_encoding_max_len sd name of
        Inl e \<Rightarrow> [Ev_get_max_len]
      | Inr L \<Rightarrow>
          (case validate_hsxl_block_count sd name of
             Inl e \<Rightarrow> [Ev_get_max_len, Ev_validate_block_count]
           | Inr u \<Rightarrow> built_events L))"
  by (simp add: events_def wrapper_init_cases split: sum.splits)

lemma init_Inr_built:
  assumes "result (HotShotXLMotionWrapper_init sd hash name lo) = Inr w"
  shows "\<exists>L. get_hsxl_temporal_position_encoding_max_len sd name = Inr L \<and>
             validate_hsxl_block_count sd name = Inr () \<and> \<not> has_mid_block sd \<and>
             w = built_wrapper L hash name lo"
  using assms by (auto simp: result_init split: sum.splits if_splits)

lemma max_len_loop_no_key:
  "list_all (\<lambda>k. \<not> endswith k pos_suffix) keys \<Longrightarrow>
   max_len_loop d keys mm_type =
     Inl (MotionCompatibilityError
       (''No pos_encoder.positional_encoding found in mm_state_dict - '' @ mm_type @
        '' is not a valid HotShotXL motion module!''))"
  by (induction keys) simp_all

lemma max_len_loop_find:
  "find (\<lambda>k. endswith k pos_suffix) keys = Some k \<Longrightarrow>
   max_len_loop d keys mm_type =
     (case dict_get d k of Inl e \<Rightarrow> Inl e | Inr t \<Rightarrow> tensor_size t 1)"
  by (induction keys) (auto split: if_splits)

text \<open>
  C1. A dictionary that passes both validators and holds a middle-level temporal key
  should give a wrapper with a middle module and the version \<^verbatim>\<open>HSXL v2\<close>. On such a
  dictionary the construction raises TypeError instead: the middle module is requested
  with the keyword \<^verbatim>\<open>BlockType\<close>, which is no parameter of the module's initialiser.
\<close>

theorem C1_mid_block_construction_raises:
  "get_hsxl_temporal_position_encoding_max_len
      [(''down_blocks.2.temporal_attentions.0.proj_in.weight'', [1280, 1280]),
       (''mid_block.temporal_attentions.0.proj_in.weight'', [1280, 1280]),
       (''up_blocks.0.temporal_attentions.0.transformer_blocks.0.attention_blocks.0.pos_encoder.positional_encoding'', [1, 24, 1280])]
      ''hsxl_v2.ckpt'' = Inr 24 \<and>
   validate_hsxl_block_count
      [(''down_blocks.2.temporal_attentions.0.proj_in.weight'', [1280, 1280]),
       (''mid_block.temporal_attentions.0.proj_in.weight'', [1280, 1280]),
       (''up_blocks.0.temporal_attentions.0.transformer_blocks.0.attention_blocks.0.pos_encoder.positional_encoding'', [1, 24, 1280])]
      ''hsxl_v2.ckpt'' = Inr () \<and>
   has_mid_block
      [(''down_blocks.2.temporal_attentions.0.proj_in.weight'', [1280, 1280]),
       (''mid_block.temporal_attentions.0.proj_in.weight'', [1280, 1280]),
       (''up_blocks.0.temporal_attentions.0.transformer_blocks.0.attention_blocks.0.pos_encoder.positional_encoding'', [1, 24, 1280])] \<and>
   result (HotShotXLMotionWrapper_init
      [(''down_blocks.2.temporal_attentions.0.proj_in.weight'', [1280, 1280]),
       (''mid_block.temporal_attentions.0.proj_in.weight'', [1280, 1280]),
       (''up_blocks.0.temporal_attentions.0.transformer_blocks.0.attention_blocks.0.pos_encoder.positional_encoding'', [1, 24, 1280])]
      ''abc123'' ''hsxl_v2.ckpt'' None) =
     Inl (TypeError ''__init__() got an unexpected keyword argument BlockType'')"
  by code_simp

text \<open>
  C2. Construction should fail with the compatibility error of a validator only. On a
  dictionary with a middle-level temporal key the exception that escapes is a TypeError.
\<close>

theorem C2_other_exception_escapes:
  "(case result (HotShotXLMotionWrapper_init
      [(''down_blocks.0.pos_encoder.positional_encoding'', [1, 32, 320]),
       (''down_blocks.2.proj_out.bias'', [1280]),
       (''mid_block.temporal.proj_out.bias'', [1280])]
      ''h'' ''mm.safetensors'' (Some [])) of
      Inl e \<Rightarrow> \<not> is_MotionCompatibilityError e \<and>
                e = TypeError ''__init__() got an unexpected keyword argument BlockType''
    | Inr w \<Rightarrow> False)"
  by code_simp

text \<open>
  C5. A dictionary with no key that ends in the positional-encoding suffix makes the
  construction fail with the compatibility error. When there is such a key, the first one
  in the dictionary's order, and its tensor has the shape \<open>[a, L, c]\<close>, the lookup
  returns the middle size \<open>L\<close>, and a wrapper that is built has \<open>L\<close> as its
  maximal sequence length.
\<close>

theorem C5_positional_encoding_key:
  "(list_all (\<lambda>k. \<not> endswith k pos_suffix) (dict_keys sd) \<longrightarrow>
      result (HotShotXLMotionWrapper_init sd hash name lo) =
        Inl (MotionCompatibilityError
          (''No pos_encoder.positional_encoding found in mm_state_dict - '' @ name @
           '' is not a valid HotShotXL motion module!''))) \<and>
   (find (\<lambda>k. endswith k pos_suffix) (dict_keys sd) = Some k \<and> map_of sd k = Some [a, L, c] \<longrightarrow>
      get_hsxl_temporal_position_encoding_max_len sd name = Inr L \<and>
      (\<forall>w. result (HotShotXLMotionWrapper_init sd hash name lo) = Inr w \<longrightarrow>
             encoding_max_len w = L))"
proof (intro conjI impI)
  assume "list_all (\<lambda>k. \<not> endswith k pos_suffix) (dict_keys sd)"
  then show "result (HotShotXLMotionWrapper_init sd hash name lo) =
        Inl (MotionCompatibilityError
          (''No pos_encoder.positional_encoding found in mm_state_dict - '' @ name @
           '' is not a valid HotShotXL motion module!''))"
    by (simp add: result_init get_hsxl_temporal_position_encoding_max_len_def
        max_len_loop_no_key)
next
  assume h: "find (\<lambda>k. endswith k pos_suffix) (dict_keys sd) = Some k \<and>
             map_of sd k = Some [a, L, c]"
  then show g: "get_hsxl_temporal_position_encoding_max_len sd name = Inr L"
    by (simp add: get_hsxl_temporal_position_encoding_max_len_def max_len_loop_find
        dict_get_def tensor_size_def)
  show "\<forall>w. result (HotShotXLMotionWrapper_init sd hash name lo) = Inr w \<longrightarrow>
             encoding_max_len w = L"
    using g by (auto simp: result_init built_wrapper_def split: sum.splits if_splits)
qed

theorem C5_positional_encoding_key_witness:
  "result (HotShotXLMotionWrapper_init [(''down_blocks.2.weight'', [320])] ''h'' ''mm'' None) =
     Inl (MotionCompatibilityError
       ''No pos_encoder.positional_encoding found in mm_state_dict - mm is not a valid HotShotXL motion module!'') \<and>
   get_hsxl_temporal_position_encoding_max_len
     [(''down_blocks.2.pos_encoder.positional_encoding'', [1, 24, 1280])] ''mm'' = Inr 24 \<and>
   result (HotShotXLMotionWrapper_init
     [(''down_blocks.2.pos_encoder.positional_encoding'', [1, 24, 1280])] ''h'' ''mm'' None) =
     Inr (built_wrapper 24 ''h'' ''mm'' None) \<and>
   encoding_max_len (built_wrapper 24 ''h'' ''mm'' None) = 24"
proof -
  have a: "list_all (\<lambda>k. \<not> endswith k pos_suffix) (dict_keys [(''down_blocks.2.weight'', [320])])"
    by (simp add: dict_keys_def endswith_def pos_suffix_def)
  have b: "find (\<lambda>k. endswith k pos_suffix)
             (dict_keys [(''down_blocks.2.pos_encoder.positional_encoding'', [1, 24, 1280])]) =
           Some ''down_blocks.2.pos_encoder.positional_encoding'' \<and>
           map_of [(''down_blocks.2.pos_encoder.positional_encoding'', [1, 24, 1280])]
             ''down_blocks.2.pos_encoder.positional_encoding'' = Some [1, 24, 1280::nat]"
    by (simp add: dict_keys_def endswith_def pos_suffix_def)
  have rg: "get_hsxl_temporal_position_encoding_max_len
     [(''down_blocks.2.pos_encoder.positional_encoding'', [1, 24, 1280])] ''mm'' = Inr 24"
    by code_simp
  have rv: "validate_hsxl_block_count
     [(''down_blocks.2.pos_encoder.positional_encoding'', [1, 24, 1280])] ''mm'' = Inr ()"
    by code_simp
  have rm: "\<not> has_mid_block
     [(''down_blocks.2.pos_encoder.positional_encoding'', [1, 24, 1280])]"
    by code_simp
  have r: "result (HotShotXLMotionWrapper_init
     [(''down_blocks.2.pos_encoder.positional_encoding'', [1, 24, 1280])] ''h'' ''mm'' None) =
     Inr (built_wrapper 24 ''h'' ''mm'' None)"
    by (rule result_init_v1 [OF rg rv rm])
  from C5_positional_encoding_key
         [where sd = "[(''down_blocks.2.weight'', [320])]" and hash = "''h''"
            and name = "''mm''" and lo = None]
       C5_positional_encoding_key
         [where sd = "[(''down_blocks.2.pos_encoder.positional_encoding'', [1, 24, 1280])]"
            and k = "''down_blocks.2.pos_encoder.positional_encoding''"
            and a = 1 and L = 24 and c = 1280 and name = "''mm''" and hash = "''h''"
            and lo = None]
       a b r
  show ?thesis by simp
qed

text \<open>
  C8. \<^verbatim>\<open>has_loras\<close> of a constructed wrapper is true exactly when the list of LoRAs
  given to the construction is not null; so it is true for the empty list.
\<close>

theorem C8_has_loras:
  "result (HotShotXLMotionWrapper_init sd hash name lo) = Inr w \<Longrightarrow>
     has_loras w = (lo \<noteq> None)"
  by (auto simp: result_init has_loras_def built_wrapper_def split: sum.splits if_splits)

theorem C8_has_loras_witness:
  "result (HotShotXLMotionWrapper_init
     [(''down_blocks.2.pos_encoder.positional_encoding'', [1, 24, 1280])] ''h'' ''mm'' (Some [])) =
     Inr (built_wrapper 24 ''h'' ''mm'' (Some [])) \<and>
   has_loras (built_wrapper 24 ''h'' ''mm'' (Some [])) \<and>
   result (HotShotXLMotionWrapper_init
     [(''down_blocks.2.pos_encoder.positional_encoding'', [1, 24, 1280])] ''h'' ''mm'' None) =
     Inr (built_wrapper 24 ''h'' ''mm'' None) \<and>
   \<not> has_loras (built_wrapper 24 ''h'' ''mm'' None)"
proof -
  have r1g: "get_hsxl_temporal_position_encoding_max_len
     [(''down_blocks.2.pos_encoder.positional_encoding'', [1, 24, 1280])] ''mm'' = Inr 24"
    by code_simp
  have r1v: "validate_hsxl_block_count
     [(''down_blocks.2.pos_encoder.positional_encoding'', [1, 24, 1280])] ''mm'' = Inr ()"
    by code_simp
  have r1m: "\<not> has_mid_block
     [(''down_blocks.2.pos_encoder.positional_encoding'', [1, 24, 1280])]"
    by code_simp
  have r1: "result (HotShotXLMotionWrapper_init
     [(''down_blocks.2.pos_encoder.positional_encoding'', [1, 24, 1280])] ''h'' ''mm'' (Some [])) =
     Inr (built_wrapper 24 ''h'' ''mm'' (Some []))"
    by (rule result_init_v1 [OF r1g r1v r1m])
  have r2g: "get_hsxl_temporal_position_encoding_max_len
     [(''down_blocks.2.pos_encoder.positional_encoding'', [1, 24, 1280])] ''mm'' = Inr 24"
    by code_simp
  have r2v: "validate_hsxl_block_count
     [(''down_blocks.2.pos_encoder.positional_encoding'', [1, 24, 1280])] ''mm'' = Inr ()"
    by code_simp
  have r2m: "\<not> has_mid_block
     [(''down_blocks.2.pos_encoder.positional_encoding'', [1, 24, 1280])]"
    by code_simp
  have r2: "result (HotShotXLMotionWrapper_init
     [(''down_blocks.2.pos_encoder.positional_encoding'', [1, 24, 1280])] ''h'' ''mm'' None) =
     Inr (built_wrapper 24 ''h'' ''mm'' None)"
    by (rule result_init_v1 [OF r2g r2v r2m])
  from C8_has_loras [OF r1] C8_has_loras [OF r2] r1 r2 show ?thesis by simp
qed

text \<open>
  C6, as stated: the three validators run, in their order, before any module is built.
  The source calls \<^verbatim>\<open>has_mid_block\<close> only after the three down modules and the three
  up modules are built, so the statement fails on every dictionary that passes the first
  two validators.
\<close>

theorem C6_has_mid_block_after_modules_counterexample:
  "events (HotShotXLMotionWrapper_init
     [(''down_blocks.2.pos_encoder.positional_encoding'', [1, 24, 1280])] ''h'' ''mm'' None) =
     [Ev_get_max_len, Ev_validate_block_count,
      Ev_module_init 320 (PBlockType DOWN) 24, Ev_module_init 640 (PBlockType DOWN) 24,
      Ev_module_init 1280 (PBlockType DOWN) 24, Ev_module_init 1280 (PBlockType UP) 24,
      Ev_module_init 640 (PBlockType UP) 24, Ev_module_init 320 (PBlockType UP) 24,
      Ev_has_mid_block] \<and>
   \<not> validators_before_modules (events (HotShotXLMotionWrapper_init
     [(''down_blocks.2.pos_encoder.positional_encoding'', [1, 24, 1280])] ''h'' ''mm'' None))"
proof -
  have g: "get_hsxl_temporal_position_encoding_max_len
     [(''down_blocks.2.pos_encoder.positional_encoding'', [1, 24, 1280])] ''mm'' = Inr 24"
    by code_simp
  have v: "validate_hsxl_block_count
     [(''down_blocks.2.pos_encoder.positional_encoding'', [1, 24, 1280])] ''mm'' = Inr ()"
    by code_simp
  have "events (HotShotXLMotionWrapper_init
     [(''down_blocks.2.pos_encoder.positional_encoding'', [1, 24, 1280])] ''h'' ''mm'' None) =
     built_events 24"
    unfolding events_init g v by simp
  then show ?thesis
    by (simp add: built_events_def validators_before_modules_def)
qed

text \<open>
  C6, amended: the maximal-length lookup runs first and the block-count check second, and
  no module is built unless both succeed; \<^verbatim>\<open>has_mid_block\<close> runs after the three down
  modules and the three up modules have been built, each with the length that the lookup
  returned.
\<close>

theorem C6_validator_order:
  "(\<forall>e. get_hsxl_temporal_position_encoding_max_len sd name = Inl e \<longrightarrow>
        events (HotShotXLMotionWrapper_init sd hash name lo) = [Ev_get_max_len]) \<and>
   (\<forall>L e. get_hsxl_temporal_position_encoding_max_len sd name = Inr L \<and>
          validate_hsxl_block_count sd name = Inl e \<longrightarrow>
        events (HotShotXLMotionWrapper_init sd hash name lo) =
          [Ev_get_max_len, Ev_validate_block_count]) \<and>
   (\<forall>L. get_hsxl_temporal_position_encoding_max_len sd name = Inr L \<and>
        validate_hsxl_block_count sd name = Inr () \<longrightarrow>
        (\<exists>rest. events (HotShotXLMotionWrapper_init sd hash name lo) =
           [Ev_get_max_len, Ev_validate_block_count] @
           map (\<lambda>c. Ev_module_init c (PBlockType DOWN) L) [320, 640, 1280] @
           map (\<lambda>c. Ev_module_init c (PBlockType UP) L) [1280, 640, 320] @
           Ev_has_mid_block # rest))"
  by (simp add: events_init built_events_def)

theorem C6_validator_order_witness:
  "events (HotShotXLMotionWrapper_init [] ''h'' ''mm'' None) = [Ev_get_max_len] \<and>
   events (HotShotXLMotionWrapper_init
     [(''down_blocks.1.pos_encoder.positional_encoding'', [1, 24, 640])] ''h'' ''mm'' None) =
     [Ev_get_max_len, Ev_validate_block_count] \<and>
   (\<exists>rest. events (HotShotXLMotionWrapper_init
       [(''down_blocks.2.pos_encoder.positional_encoding'', [1, 24, 1280])] ''h'' ''mm'' None) =
      [Ev_get_max_len, Ev_validate_block_count] @
      map (\<lambda>c. Ev_module_init c (PBlockType DOWN) 24) [320, 640, 1280] @
      map (\<lambda>c. Ev_module_init c (PBlockType UP) 24) [1280, 640, 320] @
      Ev_has_mid_block # rest)"
proof -
  have g0: "get_hsxl_temporal_position_encoding_max_len [] ''mm'' =
      Inl (MotionCompatibilityError
       ''No pos_encoder.positional_encoding found in mm_state_dict - mm is not a valid HotShotXL motion module!'')"
    by code_simp
  have g1: "get_hsxl_temporal_position_encoding_max_len
     [(''down_blocks.1.pos_encoder.positional_encoding'', [1, 24, 640])] ''mm'' = Inr 24"
    by code_simp
  have v1: "validate_hsxl_block_count
     [(''down_blocks.1.pos_encoder.positional_encoding'', [1, 24, 640])] ''mm'' =
      Inl (MotionCompatibilityError
       ''Expected biggest down_block to be 2, but was 1 - mm is not a valid HotShotXL motion module!'')"
    by code_simp
  have g2: "get_hsxl_temporal_position_encoding_max_len
     [(''down_blocks.2.pos_encoder.positional_encoding'', [1, 24, 1280])] ''mm'' = Inr 24"
    by code_simp
  have v2: "validate_hsxl_block_count
     [(''down_blocks.2.pos_encoder.positional_encoding'', [1, 24, 1280])] ''mm'' = Inr ()"
    by code_simp
  have a: "events (HotShotXLMotionWrapper_init [] ''h'' ''mm'' None) = [Ev_get_max_len]"
    using C6_validator_order [where sd = "[]" and name = "''mm''" and hash = "''h''" and lo = None] g0
    by blast
  have b: "events (HotShotXLMotionWrapper_init
     [(''down_blocks.1.pos_encoder.positional_encoding'', [1, 24, 640])] ''h'' ''mm'' None) =
     [Ev_get_max_len, Ev_validate_block_count]"
    using C6_validator_order
      [where sd = "[(''down_blocks.1.pos_encoder.positional_encoding'', [1, 24, 640])]"
         and name = "''mm''" and hash = "''h''" and lo = None] g1 v1
    by blast
  have c: "\<exists>rest. events (HotShotXLMotionWrapper_init
       [(''down_blocks.2.pos_encoder.positional_encoding'', [1, 24, 1280])] ''h'' ''mm'' None) =
      [Ev_get_max_len, Ev_validate_block_count] @
      map (\<lambda>c. Ev_module_init c (PBlockType DOWN) 24) [320, 640, 1280] @
      map (\<lambda>c. Ev_module_init c (PBlockType UP) 24) [1280, 640, 320] @
      Ev_has_mid_block # rest"
    using C6_validator_order
      [where sd = "[(''down_blocks.2.pos_encoder.positional_encoding'', [1, 24, 1280])]"
         and name = "''mm''" and hash = "''h''" and lo = None] g2 v2
    by blast
  from a b c show ?thesis by blast
qed

subsection \<open>The block-count check\<close>

text \<open>
  The integer parser at some strings: ASCII digits with sign, whitespace and underscores,
  a no-break space before the digit, a fullwidth digit, digits of two scripts with an
  ideographic space behind them, a superscript two (no decimal digit), and the limit of
  4300 digits.
\<close>

lemma py_int_examples:
  "py_int ''2'' = Some 2" "py_int '' -1_0 '' = Some (- 10)" "py_int ''x'' = None"
  "py_int ''1__0'' = None" "py_int [CHR 0x1C, CHR ''2''] = None"
  "py_int [CHR 0xC2, CHR 0xA0, CHR ''2''] = Some 2"
  "py_int [CHR 0xEF, CHR 0xBC, CHR 0x92] = Some 2"
  "py_int [CHR 0xF0, CHR 0x9D, CHR 0x9F, CHR 0x96, CHR ''_'', CHR 0xD9, CHR 0xA3,
           CHR 0xE3, CHR 0x80, CHR 0x80] = Some 83"
  "py_int [CHR 0xC2, CHR 0xB2] = None"
  by code_simp+

lemma validate_unicode_index:
  "validate_hsxl_block_count
     [(''down_blocks.'' @ [CHR 0xC2, CHR 0xA0] @ ''2.w'', [1]),
      (''a.pos_encoder.positional_encoding'', [1, 24, 320])] ''mm'' = Inr ()"
  by code_simp

lemma to_ascii_replicate:
  "byte c < 0x80 \<Longrightarrow> to_ascii (replicate n c) = replicate n c"
  by (induction n) (simp_all add: utf8_head_def)

lemma py_int_too_many_digits:
  "py_strip (to_ascii s) = c # r \<Longrightarrow> c \<noteq> CHR ''-'' \<Longrightarrow> c \<noteq> CHR ''+'' \<Longrightarrow>
   4300 < int (length (filter is_digit (c # r))) \<Longrightarrow> py_int s = None"
  by (simp add: py_int_def)

lemma py_int_digit_limit:
  "py_int (replicate 4300 (CHR ''1'')) \<noteq> None \<and> py_int (replicate 4301 (CHR ''1'')) = None"
proof -
  have b: "byte (CHR ''1'') < 0x80" by (simp add: byte_def)
  have s: "\<not> py_isspace (CHR ''1'')" by (simp add: py_isspace_def)
  have d: "is_digit (CHR ''1'')" by (simp add: is_digit_def)
  have t: "py_strip (to_ascii (replicate n (CHR ''1''))) = replicate n (CHR ''1'')" for n
    using s by (simp add: to_ascii_replicate [OF b] py_strip_def dropWhile_replicate)
  have dv: "digits_val acc (replicate n (CHR ''1'')) \<noteq> None" for acc n
  proof (induction n arbitrary: acc rule: less_induct)
    case (less n)
    show ?case
    proof (cases n)
      case 0
      then show ?thesis by simp
    next
      case (Suc m)
      show ?thesis
      proof (cases m)
        case 0
        with Suc d show ?thesis by simp
      next
        case (Suc k)
        have "digits_val (acc * 10 + digit_val (CHR ''1'')) (replicate m (CHR ''1'')) \<noteq> None"
          using less.IH [of m] \<open>n = Suc m\<close> by simp
        with \<open>n = Suc m\<close> Suc d show ?thesis by simp
      qed
    qed
  qed
  have r0: "replicate 4300 (CHR ''1'') = CHR ''1'' # replicate 4299 (CHR ''1'')"
  proof -
    have "(4300::nat) = Suc 4299" by simp
    then show ?thesis by (simp only: replicate_Suc)
  qed
  have r1: "replicate 4301 (CHR ''1'') = CHR ''1'' # replicate 4300 (CHR ''1'')"
  proof -
    have "(4301::nat) = Suc 4300" by simp
    then show ?thesis by (simp only: replicate_Suc)
  qed
  have t0: "py_strip (to_ascii (replicate 4300 (CHR ''1''))) = CHR ''1'' # replicate 4299 (CHR ''1'')"
    using t [of 4300] r0 by simp
  have t1: "py_strip (to_ascii (replicate 4301 (CHR ''1''))) = CHR ''1'' # replicate 4300 (CHR ''1'')"
    using t [of 4301] r1 by simp
  have a: "py_int (replicate 4300 (CHR ''1'')) \<noteq> None"
    using d dv [of "digit_val (CHR ''1'')" 4299] by (simp add: py_int_def t0)
  have c: "py_int (replicate 4301 (CHR ''1'')) = None"
    by (rule py_int_too_many_digits [OF t1]) (simp_all add: d)
  from a c show ?thesis by blast
qed

lemma split_dot_two:
  "CHR ''.'' \<in> set key \<Longrightarrow> \<exists>a b r. split_dot key = a # b # r"
proof (induction key)
  case Nil
  then show ?case by simp
next
  case (Cons c cs)
  show ?case
  proof (cases "c = CHR ''.''")
    case True
    then show ?thesis by (cases cs) (auto split: list.splits)
  next
    case False
    with Cons.prems have "CHR ''.'' \<in> set cs" by simp
    with Cons.IH obtain a b r where "split_dot cs = a # b # r" by blast
    with False show ?thesis by simp
  qed
qed

lemma block_count_loop_fold:
  "list_all (\<lambda>k. py_in ''down_blocks'' k \<longrightarrow> CHR ''.'' \<in> set k) keys \<Longrightarrow>
   block_count_loop keys b = Inr (fold max (down_block_indices keys) b)"
proof (induction keys arbitrary: b)
  case Nil
  then show ?case by (simp add: down_block_indices_def List.map_filter_simps)
next
  case (Cons key keys)
  from Cons.prems have rest: "list_all (\<lambda>k. py_in ''down_blocks'' k \<longrightarrow> CHR ''.'' \<in> set k) keys"
    by simp
  show ?case
  proof (cases "py_in ''down_blocks'' key")
    case False
    then show ?thesis
      using Cons.IH [OF rest] by (simp add: down_block_indices_def)
  next
    case True
    with Cons.prems have "CHR ''.'' \<in> set key" by simp
    then obtain a s r where sp: "split_dot key = a # s # r"
      using split_dot_two by blast
    show ?thesis
    proof (cases "py_int s")
      case None
      with True sp show ?thesis
        using Cons.IH [OF rest]
        by (simp add: down_block_indices_def key_block_index_def List.map_filter_simps)
    next
      case (Some n)
      have "(if b < n then n else b) = max n b" by (simp add: max_def)
      with Some True sp show ?thesis
        using Cons.IH [OF rest, of "max n b"]
        by (simp add: down_block_indices_def key_block_index_def List.map_filter_simps)
    qed
  qed
qed

lemma block_count_loop_Max:
  assumes "list_all (\<lambda>k. py_in ''down_blocks'' k \<longrightarrow> CHR ''.'' \<in> set k) keys"
  shows "block_count_loop keys 0 = Inr (Max (set (0 # down_block_indices keys)))"
  using block_count_loop_fold [OF assms, of 0] unfolding Max.set_eq_fold .

text \<open>
  C4, as stated: the index of a key is the segment that follows the marker, and a
  dictionary whose maximal index is not 2 is rejected. The source reads the second
  dot-separated segment of the whole key, wherever the marker stands in it: the dictionary
  below has the maximal index 5 after the marker and is accepted.
\<close>

theorem C4_block_count_counterexample:
  "spec_max_down_index (dict_keys
      [(''model.2.down_blocks.5.weight'', [320]),
       (''model.0.pos_encoder.positional_encoding'', [1, 24, 320])]) = Some 5 \<and>
   result (HotShotXLMotionWrapper_init
      [(''model.2.down_blocks.5.weight'', [320]),
       (''model.0.pos_encoder.positional_encoding'', [1, 24, 320])] ''h'' ''mm'' None) =
     Inr (built_wrapper 24 ''h'' ''mm'' None)"
proof -
  have s: "spec_max_down_index (dict_keys
      [(''model.2.down_blocks.5.weight'', [320]),
       (''model.0.pos_encoder.positional_encoding'', [1, 24, 320])]) = Some 5"
    by code_simp
  have g: "get_hsxl_temporal_position_encoding_max_len
      [(''model.2.down_blocks.5.weight'', [320]),
       (''model.0.pos_encoder.positional_encoding'', [1, 24, 320])] ''mm'' = Inr 24"
    by code_simp
  have v: "validate_hsxl_block_count
      [(''model.2.down_blocks.5.weight'', [320]),
       (''model.0.pos_encoder.positional_encoding'', [1, 24, 320])] ''mm'' = Inr ()"
    by code_simp
  have m: "\<not> has_mid_block
      [(''model.2.down_blocks.5.weight'', [320]),
       (''model.0.pos_encoder.positional_encoding'', [1, 24, 320])]"
    by code_simp
  from s result_init_v1 [OF g v m] show ?thesis by blast
qed

text \<open>
  C4, amended: the check scans every key that contains \<^verbatim>\<open>down_blocks\<close>, parses the
  second dot-separated segment of the key as \<^verbatim>\<open>int\<close> does, skips a segment that
  \<^verbatim>\<open>int\<close> refuses, and keeps the maximum of the indices and 0. When every key that contains the marker
  has a dot, the check fails with the compatibility error unless that maximum is 2, and
  so does the construction whenever the lookup of the maximal length has succeeded.
\<close>

theorem C4_block_count:
  assumes "list_all (\<lambda>k. py_in ''down_blocks'' k \<longrightarrow> CHR ''.'' \<in> set k) (dict_keys sd)"
  shows "block_count_loop (dict_keys sd) 0 = Inr (Max (set (0 # down_block_indices (dict_keys sd)))) \<and>
    (Max (set (0 # down_block_indices (dict_keys sd))) \<noteq> 2 \<longrightarrow>
       validate_hsxl_block_count sd name =
         Inl (MotionCompatibilityError
           (''Expected biggest down_block to be 2, but was '' @
            str_int (Max (set (0 # down_block_indices (dict_keys sd)))) @
            '' - '' @ name @ '' is not a valid HotShotXL motion module!'')) \<and>
       (\<forall>L. get_hsxl_temporal_position_encoding_max_len sd name = Inr L \<longrightarrow>
          result (HotShotXLMotionWrapper_init sd hash name lo) =
            Inl (MotionCompatibilityError
              (''Expected biggest down_block to be 2, but was '' @
               str_int (Max (set (0 # down_block_indices (dict_keys sd)))) @
               '' - '' @ name @ '' is not a valid HotShotXL motion module!'')))) \<and>
    (Max (set (0 # down_block_indices (dict_keys sd))) = 2 \<longrightarrow>
       validate_hsxl_block_count sd name = Inr ())"
proof -
  have l: "block_count_loop (dict_keys sd) 0 =
      Inr (Max (set (0 # down_block_indices (dict_keys sd))))"
    by (rule block_count_loop_Max [OF assms])
  show ?thesis
    unfolding result_init validate_hsxl_block_count_def l by simp
qed

theorem C4_block_count_witness:
  "block_count_loop (dict_keys
      [(''down_blocks.0.proj.weight'', [320]), (''down_blocks.x.proj.weight'', [320]),
       (''down_blocks.3.proj.weight'', [320]),
       (''up_blocks.0.pos_encoder.positional_encoding'', [1, 24, 320])]) 0 = Inr 3 \<and>
   result (HotShotXLMotionWrapper_init
      [(''down_blocks.0.proj.weight'', [320]), (''down_blocks.x.proj.weight'', [320]),
       (''down_blocks.3.proj.weight'', [320]),
       (''up_blocks.0.pos_encoder.positional_encoding'', [1, 24, 320])] ''h'' ''mm'' None) =
     Inl (MotionCompatibilityError
       ''Expected biggest down_block to be 2, but was 3 - mm is not a valid HotShotXL motion module!'')"
proof -
  have a: "list_all (\<lambda>k. py_in ''down_blocks'' k \<longrightarrow> CHR ''.'' \<in> set k) (dict_keys
      [(''down_blocks.0.proj.weight'', [320]), (''down_blocks.x.proj.weight'', [320]),
       (''down_blocks.3.proj.weight'', [320]),
       (''up_blocks.0.pos_encoder.positional_encoding'', [1, 24, 320])])"
    by (simp add: dict_keys_def)
  have i: "down_block_indices (dict_keys
      [(''down_blocks.0.proj.weight'', [320]), (''down_blocks.x.proj.weight'', [320]),
       (''down_blocks.3.proj.weight'', [320]),
       (''up_blocks.0.pos_encoder.positional_encoding'', [1, 24, 320])]) = [0, 3]"
    by code_simp
  have g: "get_hsxl_temporal_position_encoding_max_len
      [(''down_blocks.0.proj.weight'', [320]), (''down_blocks.x.proj.weight'', [320]),
       (''down_blocks.3.proj.weight'', [320]),
       (''up_blocks.0.pos_encoder.positional_encoding'', [1, 24, 320])] ''mm'' = Inr 24"
    by code_simp
  have s: "str_int 3 = ''3''"
    by code_simp
  have mx: "Max (set [0, 0, 3 :: int]) = 3"
    by simp
  from C4_block_count [OF a, where name = "''mm''" and hash = "''h''" and lo = None]
  show ?thesis
    unfolding i mx using g s by simp
qed

subsection \<open>The maximal sequence length in the tree\<close>

lemma attention_pe:
  "pos_encoder (TemporalAttention_set_scale_multiplier m a) = pos_encoder a"
  by (simp add: TemporalAttention_set_scale_multiplier_def split: option.splits)

lemma block_pe:
  "block_pos_encoders (TransformerBlock_set_scale_multiplier m b) = block_pos_encoders b"
  by (simp add: block_pos_encoders_def TransformerBlock_set_scale_multiplier_def attention_pe
      o_def)

lemma tt_pe:
  "tt_pos_encoders (TransformerTemporal_set_video_length v f tt) = tt_pos_encoders tt"
  "tt_pos_encoders (TransformerTemporal_set_scale_multiplier m tt) = tt_pos_encoders tt"
  "tt_pos_encoders (TransformerTemporal_set_masks masks mn mx tt) = tt_pos_encoders tt"
  "tt_pos_encoders (TransformerTemporal_set_sub_idxs idxs tt) = tt_pos_encoders tt"
  "tt_pos_encoders (TransformerTemporal_reset_temp_vars tt) = tt_pos_encoders tt"
  by (simp_all add: tt_pos_encoders_def TransformerTemporal_set_video_length_def
      TransformerTemporal_set_scale_multiplier_def TransformerTemporal_set_masks_def
      TransformerTemporal_set_sub_idxs_def TransformerTemporal_reset_temp_vars_def block_pe o_def)

lemma module_pe_for_each:
  "(\<And>tt. tt_pos_encoders (f tt) = tt_pos_encoders tt) \<Longrightarrow>
   module_pos_encoders (for_each_tt f m) = module_pos_encoders m"
  by (simp add: module_pos_encoders_def for_each_tt_def o_def)

lemma wrapper_pe_for_each:
  "(\<And>m. module_pos_encoders (f m) = module_pos_encoders m) \<Longrightarrow>
   wrapper_pos_encoders (for_each_block f w) = wrapper_pos_encoders w"
  by (cases "mid_block w")
     (simp_all add: wrapper_pos_encoders_def all_modules_def for_each_block_def o_def)

lemma apply_setter_pos_encoders:
  "wrapper_pos_encoders (apply_setter call w) = wrapper_pos_encoders w"
proof (cases call)
  case (SetVideoLength v f)
  have "wrapper_pos_encoders
          (for_each_block (HotShotXLMotionModule_set_video_length v f) (w\<lparr>AD_video_length := v\<rparr>)) =
        wrapper_pos_encoders (w\<lparr>AD_video_length := v\<rparr>)"
    by (rule wrapper_pe_for_each)
       (simp add: HotShotXLMotionModule_set_video_length_def module_pe_for_each tt_pe)
  then show ?thesis
    using SetVideoLength
    by (simp add: set_video_length_def wrapper_pos_encoders_def all_modules_def)
next
  case (SetScaleMultiplier m)
  then show ?thesis
    by (simp add: set_scale_multiplier_def HotShotXLMotionModule_set_scale_multiplier_def
        wrapper_pe_for_each module_pe_for_each tt_pe)
next
  case (SetMasks masks mn mx)
  then show ?thesis
    by (simp add: set_masks_def HotShotXLMotionModule_set_masks_def
        wrapper_pe_for_each module_pe_for_each tt_pe)
next
  case (SetSubIdxs idxs)
  then show ?thesis
    by (simp add: set_sub_idxs_def HotShotXLMotionModule_set_sub_idxs_def
        wrapper_pe_for_each module_pe_for_each tt_pe)
next
  case ResetTempVars
  then show ?thesis
    by (simp add: reset_temp_vars_def HotShotXLMotionModule_reset_temp_vars_def
        wrapper_pe_for_each module_pe_for_each tt_pe)
qed

lemma apply_setter_max_len:
  "encoding_max_len (apply_setter call w) = encoding_max_len w"
  by (cases call)
     (simp_all add: set_video_length_def set_scale_multiplier_def set_masks_def set_sub_idxs_def
        reset_temp_vars_def for_each_block_def)

lemma fold_apply_setter:
  "wrapper_pos_encoders (fold apply_setter calls w) = wrapper_pos_encoders w \<and>
   encoding_max_len (fold apply_setter calls w) = encoding_max_len w"
  by (induction calls arbitrary: w) (simp_all add: apply_setter_pos_encoders apply_setter_max_len)

lemma module_init_pe:
  "module_pos_encoders (HotShotXLMotionModule_init c bt L) =
     (if bt = PBlockType MID then [] else
        (if bt = PBlockType UP then [\<lparr>positional_encoding = [1, L, 8 * (c div 8)]\<rparr>,
                                     \<lparr>positional_encoding = [1, L, 8 * (c div 8)]\<rparr>] else []) @
        [\<lparr>positional_encoding = [1, L, 8 * (c div 8)]\<rparr>,
         \<lparr>positional_encoding = [1, L, 8 * (c div 8)]\<rparr>]) @
     [\<lparr>positional_encoding = [1, L, 8 * (c div 8)]\<rparr>,
      \<lparr>positional_encoding = [1, L, 8 * (c div 8)]\<rparr>]"
  by (simp add: module_pos_encoders_def HotShotXLMotionModule_init_def
      get_transformer_temporal_def TransformerTemporal_init_def tt_pos_encoders_def
      TransformerBlock_init_def block_pos_encoders_def TemporalAttention_init_def
      PositionalEncoding_init_def Let_def numeral_2_eq_2)

lemma built_wrapper_pos_encoders:
  "length (wrapper_pos_encoders (built_wrapper L hash name lo)) = 30 \<and>
   list_all (\<lambda>pe. length (positional_encoding pe) = 3 \<and> positional_encoding pe ! 1 = L)
     (wrapper_pos_encoders (built_wrapper L hash name lo))"
  by (simp add: wrapper_pos_encoders_def all_modules_def built_wrapper_def module_init_pe)

text \<open>
  C9. The length that the lookup returns is the wrapper's \<^verbatim>\<open>encoding_max_len\<close>, it is
  the \<^verbatim>\<open>max_length\<close> of each of the six modules built, and each of the thirty positional
  encoders of the tree holds a buffer of three dimensions whose middle size is that
  length. No sequence of calls of the five setters changes the stored length or any of
  the buffers.
\<close>

theorem C9_max_length_constant:
  assumes "result (HotShotXLMotionWrapper_init sd hash name lo) = Inr w"
  shows "get_hsxl_temporal_position_encoding_max_len sd name = Inr (encoding_max_len w) \<and>
    module_init_max_lengths (events (HotShotXLMotionWrapper_init sd hash name lo)) =
      [encoding_max_len w, encoding_max_len w, encoding_max_len w,
       encoding_max_len w, encoding_max_len w, encoding_max_len w] \<and>
    length (wrapper_pos_encoders (fold apply_setter calls w)) = 30 \<and>
    list_all (\<lambda>pe. length (positional_encoding pe) = 3 \<and>
                   positional_encoding pe ! 1 = encoding_max_len w)
      (wrapper_pos_encoders (fold apply_setter calls w)) \<and>
    encoding_max_len (fold apply_setter calls w) = encoding_max_len w"
proof -
  from init_Inr_built [OF assms] obtain L where
    g: "get_hsxl_temporal_position_encoding_max_len sd name = Inr L" and
    v: "validate_hsxl_block_count sd name = Inr ()" and
    w: "w = built_wrapper L hash name lo"
    by blast
  have L: "encoding_max_len w = L"
    by (simp add: w built_wrapper_def)
  have ev: "module_init_max_lengths (events (HotShotXLMotionWrapper_init sd hash name lo)) =
      [L, L, L, L, L, L]"
    by (simp add: events_init g v built_events_def)
  from g ev L fold_apply_setter [of calls w] built_wrapper_pos_encoders [of L hash name lo] w
  show ?thesis by simp
qed

theorem C9_max_length_constant_witness:
  "get_hsxl_temporal_position_encoding_max_len
     [(''down_blocks.2.pos_encoder.positional_encoding'', [1, 24, 1280])] ''mm'' = Inr 24 \<and>
   encoding_max_len
     (fold apply_setter
        [SetVideoLength 16 32, SetScaleMultiplier (Some 2), SetMasks (Some [32, 8, 8]) 0 1,
         SetSubIdxs (Some [0, 1, 2]), ResetTempVars]
        (built_wrapper 24 ''h'' ''mm'' None)) = 24 \<and>
   length (wrapper_pos_encoders
     (fold apply_setter
        [SetVideoLength 16 32, SetScaleMultiplier (Some 2), SetMasks (Some [32, 8, 8]) 0 1,
         SetSubIdxs (Some [0, 1, 2]), ResetTempVars]
        (built_wrapper 24 ''h'' ''mm'' None))) = 30"
proof -
  have g: "get_hsxl_temporal_position_encoding_max_len
     [(''down_blocks.2.pos_encoder.positional_encoding'', [1, 24, 1280])] ''mm'' = Inr 24"
    by code_simp
  have v: "validate_hsxl_block_count
     [(''down_blocks.2.pos_encoder.positional_encoding'', [1, 24, 1280])] ''mm'' = Inr ()"
    by code_simp
  have m: "\<not> has_mid_block
     [(''down_blocks.2.pos_encoder.positional_encoding'', [1, 24, 1280])]"
    by code_simp
  have e: "encoding_max_len (built_wrapper 24 ''h'' ''mm'' None) = 24"
    by (simp add: built_wrapper_def)
  from C9_max_length_constant [OF result_init_v1 [OF g v m, of "''h''" None],
      of "[SetVideoLength 16 32, SetScaleMultiplier (Some 2), SetMasks (Some [32, 8, 8]) 0 1,
         SetSubIdxs (Some [0, 1, 2]), ResetTempVars]"]
  show ?thesis unfolding e by blast
qed

subsection \<open>The scale multiplier\<close>

text \<open>
  C7. Setting the multiplier to null or to a value that \<^verbatim>\<open>math.isclose\<close> finds close to
  1 leaves the scale of the attention unset, as in a unit on which the setter was never
  called; any other value is stored as the scale. Nothing else of the unit changes.
\<close>

theorem C7_set_scale_multiplier:
  "((multiplier = None \<or> (\<exists>m. multiplier = Some m \<and> isclose m 1)) \<longrightarrow>
      TemporalAttention_set_scale_multiplier multiplier self = self\<lparr>scale := None\<rparr> \<and>
      scale (TemporalAttention_set_scale_multiplier multiplier self) = None \<and>
      scale (TemporalAttention_init L q c h d) = None \<and>
      TemporalAttention_set_scale_multiplier multiplier (TemporalAttention_init L q c h d) =
        TemporalAttention_init L q c h d) \<and>
   (\<forall>m. multiplier = Some m \<and> \<not> isclose m 1 \<longrightarrow>
      TemporalAttention_set_scale_multiplier multiplier self = self\<lparr>scale := Some m\<rparr>)"
  by (auto simp: TemporalAttention_set_scale_multiplier_def TemporalAttention_init_def)

theorem C7_set_scale_multiplier_witness:
  "TemporalAttention_set_scale_multiplier None (TemporalAttention_init 24 320 None 8 40) =
     TemporalAttention_init 24 320 None 8 40 \<and>
   TemporalAttention_set_scale_multiplier (Some 1) (TemporalAttention_init 24 320 None 8 40) =
     TemporalAttention_init 24 320 None 8 40 \<and>
   scale (TemporalAttention_set_scale_multiplier (Some (1 + 1 / 10000000000))
            ((TemporalAttention_init 24 320 None 8 40)\<lparr>scale := Some 2\<rparr>)) = None \<and>
   scale (TemporalAttention_set_scale_multiplier (Some 2) (TemporalAttention_init 24 320 None 8 40)) =
     Some 2"
proof -
  have a: "isclose 1 1" and b: "isclose (1 + 1 / 10000000000) 1" and c: "\<not> isclose 2 1"
    by (simp_all add: isclose_def)
  from C7_set_scale_multiplier [where multiplier = None and L = 24 and q = 320 and c = None
         and h = 8 and d = 40]
  have 1: "TemporalAttention_set_scale_multiplier None (TemporalAttention_init 24 320 None 8 40) =
     TemporalAttention_init 24 320 None 8 40"
    by blast
  from C7_set_scale_multiplier [where multiplier = "Some 1" and L = 24 and q = 320 and c = None
         and h = 8 and d = 40] a
  have 2: "TemporalAttention_set_scale_multiplier (Some 1) (TemporalAttention_init 24 320 None 8 40) =
     TemporalAttention_init 24 320 None 8 40"
    by blast
  from C7_set_scale_multiplier [where multiplier = "Some (1 + 1 / 10000000000)"
         and self = "(TemporalAttention_init 24 320 None 8 40)\<lparr>scale := Some 2\<rparr>"
         and L = 24 and q = 320 and c = None and h = 8 and d = 40] b
  have 3: "scale (TemporalAttention_set_scale_multiplier (Some (1 + 1 / 10000000000))
            ((TemporalAttention_init 24 320 None 8 40)\<lparr>scale := Some 2\<rparr>)) = None"
    by blast
  from C7_set_scale_multiplier [where multiplier = "Some 2"
         and self = "TemporalAttention_init 24 320 None 8 40"] c
  have 4: "scale (TemporalAttention_set_scale_multiplier (Some 2) (TemporalAttention_init 24 320 None 8 40)) =
     Some 2"
    by (simp add: TemporalAttention_init_def)
  from 1 2 3 4 show ?thesis by blast
qed

subsection \<open>The forward pass\<close>

lemma bind_ret: "bind_m (ret x) f = f x"
  by (simp add: bind_m_def ret_def split: prod.splits)

lemma bind_lift_Inr: "bind_m (lift (Inr x)) f = f x"
  by (simp add: bind_m_def lift_def split: prod.splits)

lemma bind_lift_Inl: "bind_m (lift (Inl e)) f = ([], Inl e)"
  by (simp add: bind_m_def lift_def)

lemma bind_value: "bind_m ([], Inr x) f = f x"
  by (simp add: bind_m_def split: prod.splits)

lemma bind_error: "bind_m (l, Inl e) f = (l, Inl e)"
  by (simp add: bind_m_def)

lemma events_bind_nil:
  "events m = [] \<Longrightarrow> (\<And>x. events (f x) = []) \<Longrightarrow> events (bind_m m f) = []"
  by (cases m) (auto simp: bind_m_def events_def split: sum.splits prod.splits)

lemma events_lift: "events (lift r) = []"
  by (simp add: events_def lift_def)

lemma events_ret: "events (ret x) = []"
  by (simp add: events_def ret_def)

lemma events_raise: "events (raise e) = []"
  by (simp add: events_def raise_def)

lemma broadcast_rev_same: "broadcast_rev xs xs = Inr xs"
  by (induction xs) simp_all

lemma tensor_add_same: "tensor_add t t = Inr t"
  by (simp add: tensor_add_def broadcast_rev_same)

lemma tensor_add_pe: "tensor_add [n, f, d] [Suc 0, f, d] = Inr [n, f, d]"
  by (simp add: tensor_add_def)

lemma attention_forward_no_context:
  "events (TemporalAttention_forward att hs None am nf sm) = []"
  unfolding TemporalAttention_forward_def
  by (intro events_bind_nil events_lift) (simp add: events_ret)

lemma attention_loop_no_context:
  "events (attention_loop ps hs None am nf sm) = []"
proof (induction ps arbitrary: hs)
  case Nil
  then show ?case by (simp add: events_ret)
next
  case (Cons p ps)
  obtain a n where p: "p = (a, n)" by (cases p)
  show ?case
    unfolding p attention_loop.simps
    by (intro events_bind_nil events_lift attention_forward_no_context Cons.IH)
qed

lemma block_forward_not_cross:
  "\<not> is_cross blk \<Longrightarrow> events (TransformerBlock_forward blk hs ehs am nf sm) = []"
  unfolding TransformerBlock_forward_def Let_def
  by (simp add: events_bind_nil events_lift attention_loop_no_context)

lemma blocks_loop_not_cross:
  "list_all (\<lambda>b. \<not> is_cross b) blks \<Longrightarrow> events (blocks_loop blks hs ehs am nf sm) = []"
proof (induction blks arbitrary: hs)
  case Nil
  then show ?case by (simp add: events_ret)
next
  case (Cons b blks)
  then show ?case
    by (simp add: events_bind_nil block_forward_not_cross)
qed

lemma tt_forward_not_cross:
  assumes "list_all (\<lambda>b. \<not> is_cross b) (transformer_blocks tt)"
  shows "events (TransformerTemporal_forward tt x ehs am) = []"
proof -
  have b: "\<And>hs nf sm. events (blocks_loop (transformer_blocks tt) hs ehs am nf sm) = []"
    by (rule blocks_loop_not_cross [OF assms])
  show ?thesis
    unfolding TransformerTemporal_forward_def Let_def
    by (auto simp: events_raise events_bind_nil events_lift b split: list.splits)
qed

lemma configure_fields:
  "transformer_blocks (configure v fl m masks mn mx idxs tt) =
     map (TransformerBlock_set_scale_multiplier m) (transformer_blocks tt)"
  "video_length (configure v fl m masks mn mx idxs tt) = v"
  "norm_layer (configure v fl m masks mn mx idxs tt) = norm_layer tt"
  "proj_in (configure v fl m masks mn mx idxs tt) = proj_in tt"
  "proj_out (configure v fl m masks mn mx idxs tt) = proj_out tt"
  by (simp_all add: configure_def TransformerTemporal_set_sub_idxs_def
      TransformerTemporal_set_masks_def TransformerTemporal_set_scale_multiplier_def
      TransformerTemporal_set_video_length_def)

lemma get_transformer_temporal_blocks:
  "transformer_blocks (get_transformer_temporal c L) =
     [TransformerBlock_init (8 * (c div 8)) 8 (c div 8) 2 None L]"
  by (simp add: get_transformer_temporal_def TransformerTemporal_init_def Let_def)

lemma module_init_members:
  "tt \<in> set (temporal_attentions (HotShotXLMotionModule_init c bt L)) \<Longrightarrow>
   tt = get_transformer_temporal c L"
  by (auto simp: HotShotXLMotionModule_init_def Let_def split: if_splits)

text \<open>
  C10. Every \<^verbatim>\<open>TransformerTemporal\<close> of a module, whatever the block type, is built
  without a cross-attention dimension: none of its blocks is a cross-attention block, also
  after the setters have been called, so each block passes a null context to its attention
  units and no forward call through the \<^verbatim>\<open>TransformerTemporal\<close> reaches the statement that
  repeats the context, whatever input and encoder context it is given.
\<close>

theorem C10_context_branch_unreachable:
  assumes "tt \<in> set (temporal_attentions (HotShotXLMotionModule_init c bt L))"
  shows "list_all (\<lambda>b. \<not> is_cross b) (transformer_blocks tt) \<and>
    list_all (\<lambda>b. \<not> is_cross b) (transformer_blocks (configure v fl m masks mn mx idxs tt)) \<and>
    events (TransformerTemporal_forward (configure v fl m masks mn mx idxs tt) x ehs am) = []"
proof -
  have tt: "tt = get_transformer_temporal c L"
    by (rule module_init_members [OF assms])
  have a: "list_all (\<lambda>b. \<not> is_cross b) (transformer_blocks tt)"
    by (simp add: tt get_transformer_temporal_blocks TransformerBlock_init_def)
  have b: "list_all (\<lambda>b. \<not> is_cross b)
       (transformer_blocks (configure v fl m masks mn mx idxs tt))"
    by (simp add: tt configure_fields get_transformer_temporal_blocks TransformerBlock_init_def
        TransformerBlock_set_scale_multiplier_def)
  from a b tt_forward_not_cross [OF b] show ?thesis by blast
qed

theorem C10_context_branch_unreachable_witness:
  "events (TransformerTemporal_forward
     (configure 16 16 (Some 2) None 1 1 None (get_transformer_temporal 320 24))
     [16, 320, 8, 8] (Some ([1, 1, 1], True)) None) = []"
proof -
  have "get_transformer_temporal 320 24 \<in>
      set (temporal_attentions (HotShotXLMotionModule_init 320 (PBlockType DOWN) 24))"
    by (simp add: HotShotXLMotionModule_init_def)
  from C10_context_branch_unreachable [OF this] show ?thesis by blast
qed

text \<open>The statement is reached in a block that is built with a cross-attention dimension.\<close>

lemma context_branch_reached_with_cross_attention:
  "events (TransformerBlock_forward (TransformerBlock_init 320 8 40 2 (Some 2048) 24)
     [16, 64, 320] (Some ([1, 1, 1], True)) None 16 None) =
   [Ev_repeat_context, Ev_repeat_context]"
  by code_simp

lemma attention_forward_ok:
  assumes "positional_encoding (pos_encoder att) = [1, L, d]" "0 < f" "f \<le> L" "0 < s"
  shows "TemporalAttention_forward att [b * f, s, d] None am f sm = ([], Inr [b * f, s, d])"
  using assms
  by (simp add: TemporalAttention_forward_def tensor_size_def rearrange_frames_def
      PositionalEncoding_forward_def tensor_add_pe CrossAttentionMM_forward_def rearrange_back_def
      bind_value min_absorb1 lift_def ret_def)

lemma attention_loop_ok:
  assumes "list_all (\<lambda>p. positional_encoding (pos_encoder (fst p)) = [1, L, d] \<and> snd p = d) ps"
    "0 < f" "f \<le> L" "0 < s"
  shows "attention_loop ps [b * f, s, d] None am f sm = ([], Inr [b * f, s, d])"
  using assms(1)
proof (induction ps)
  case Nil
  then show ?case by (simp add: ret_def)
next
  case (Cons p ps)
  obtain a n where p: "p = (a, n)" by (cases p)
  from Cons.prems p have pe: "positional_encoding (pos_encoder a) = [1, L, d]" and n: "n = d"
    and rest: "list_all (\<lambda>p. positional_encoding (pos_encoder (fst p)) = [1, L, d] \<and> snd p = d) ps"
    by simp_all
  show ?case
    unfolding p attention_loop.simps
    by (simp add: n layer_norm_def lift_def
        attention_forward_ok [OF pe assms(2) assms(3) assms(4)] bind_value tensor_add_same
        Cons.IH [OF rest])
qed

lemma block_forward_ok:
  assumes "list_all (\<lambda>p. positional_encoding (pos_encoder (fst p)) = [1, L, d] \<and> snd p = d)
             (zip (attention_blocks blk) (norms blk))"
    "\<not> is_cross blk" "ff blk = d" "ff_norm blk = d" "0 < f" "f \<le> L" "0 < s"
  shows "TransformerBlock_forward blk [b * f, s, d] ehs am f sm = ([], Inr [b * f, s, d])"
  using assms(2,3,4)
  by (simp add: TransformerBlock_forward_def
      attention_loop_ok [OF assms(1) assms(5) assms(6) assms(7)] bind_value layer_norm_def
      feed_forward_def linear_def tensor_add_same lift_def)

lemma configured_block_ok:
  assumes "0 < f" "f \<le> L" "0 < s"
  shows "TransformerBlock_forward
           (TransformerBlock_set_scale_multiplier m (TransformerBlock_init d h dh 2 None L))
           [b * f, s, d] ehs am f sm = ([], Inr [b * f, s, d])"
  by (rule block_forward_ok [OF _ _ _ _ assms, where d = d])
     (simp_all add: TransformerBlock_set_scale_multiplier_def TransformerBlock_init_def
        TemporalAttention_init_def PositionalEncoding_init_def attention_pe numeral_2_eq_2)

lemma attention_forward_indivisible:
  assumes "\<not> f dvd n"
  shows "TemporalAttention_forward att [n, s, d] ehs am f sm =
    ([], Inl (EinopsError ''Shape mismatch, cannot divide axis into chunks''))"
proof -
  from assms have "f = 0 \<or> n mod f \<noteq> 0"
    by (auto simp: dvd_eq_mod_eq_0)
  then show ?thesis
    by (simp add: TemporalAttention_forward_def tensor_size_def rearrange_frames_def lift_def
        bind_value bind_error)
qed

lemma configured_block_indivisible:
  assumes "\<not> f dvd n"
  shows "TransformerBlock_forward
           (TransformerBlock_set_scale_multiplier m (TransformerBlock_init d h dh 2 None L))
           [n, s, d] ehs am f sm =
    ([], Inl (EinopsError ''Shape mismatch, cannot divide axis into chunks''))"
  by (simp add: TransformerBlock_forward_def TransformerBlock_set_scale_multiplier_def
      TransformerBlock_init_def numeral_2_eq_2 layer_norm_def lift_def bind_value
      attention_forward_indivisible [OF assms] bind_error)

lemma group_norm_ok:
  assumes C: "C = 320 \<or> C = 640 \<or> C = 1280" and pos: "0 < B" "0 < H" "0 < W"
  shows "group_norm (32, C) [B, C, H, W] = Inr [B, C, H, W]"
proof -
  from C obtain k where k: "C = 32 * k" "1 < k" by auto
  define n where "n = B * (H * W)"
  have n: "0 < n" using pos by (simp add: n_def)
  have "B * C div 32 = B * k" using k by simp
  then have "B * C div 32 * (H * W) = k * n"
    by (simp add: n_def mult.assoc mult.left_commute)
  moreover have "1 < k * n" using k(2) n by (cases n) simp_all
  ultimately have big: "B * C div 32 * (H * W) \<noteq> 1" by linarith
  have g: "C mod 32 = 0" using k by simp
  show ?thesis
    using big g by (simp add: group_norm_def)
qed

lemma tt_forward_prefix:
  assumes C: "C = 320 \<or> C = 640 \<or> C = 1280" and pos: "0 < B" "0 < H" "0 < W"
    and fields: "norm_layer tt = (32, C)" "proj_in tt = (C, C)" "proj_out tt = (C, C)"
  shows "TransformerTemporal_forward tt [B, C, H, W] ehs am =
    bind_m (blocks_loop (transformer_blocks tt) [B, H * W, C] ehs am (video_length tt)
              (get_scale_mask tt [B, C, H, W]))
      (\<lambda>hs5. if hs5 = [B, H * W, C] then ([], Inr [B, C, H, W])
              else bind_m (lift (linear (C, C) hs5)) (\<lambda>hs6.
                   bind_m (lift (reshape hs6 [B, H, W, C])) (\<lambda>hs7.
                   bind_m (lift (permute hs7 [0, 3, 1, 2])) (\<lambda>hs8.
                   lift (tensor_add hs8 [B, C, H, W])))))"
proof -
  have 1: "\<And>f. bind_m (lift (group_norm (32, C) [B, C, H, W])) f = f [B, C, H, W]"
    by (simp add: group_norm_ok [OF C pos] lift_def bind_value)
  have 2: "\<And>f. bind_m (lift (tensor_size [B, C, H, W] 1)) f = f C"
    by (simp add: tensor_size_def lift_def bind_value)
  have 3: "\<And>f. bind_m (lift (permute [B, C, H, W] [0, 2, 3, 1])) f = f [B, H, W, C]"
    by (simp add: permute_def lift_def bind_value)
  have 4: "\<And>f. bind_m (lift (reshape [B, H, W, C] [B, H * W, C])) f = f [B, H * W, C]"
    by (simp add: reshape_def numel_def lift_def bind_value mult.assoc)
  have 5: "\<And>f. bind_m (lift (linear (C, C) [B, H * W, C])) f = f [B, H * W, C]"
    by (simp add: linear_def lift_def bind_value)
  have tail: "(\<lambda>hs5. bind_m (lift (linear (C, C) hs5)) (\<lambda>hs6.
                   bind_m (lift (reshape hs6 [B, H, W, C])) (\<lambda>hs7.
                   bind_m (lift (permute hs7 [0, 3, 1, 2])) (\<lambda>hs8.
                   lift (tensor_add hs8 [B, C, H, W]))))) =
     (\<lambda>hs5. if hs5 = [B, H * W, C] then ([], Inr [B, C, H, W])
              else bind_m (lift (linear (C, C) hs5)) (\<lambda>hs6.
                   bind_m (lift (reshape hs6 [B, H, W, C])) (\<lambda>hs7.
                   bind_m (lift (permute hs7 [0, 3, 1, 2])) (\<lambda>hs8.
                   lift (tensor_add hs8 [B, C, H, W])))))"
    by (rule ext)
       (simp add: linear_def reshape_def numel_def permute_def tensor_add_same lift_def
          bind_value mult.assoc)
  show ?thesis
    unfolding TransformerTemporal_forward_def list.case Let_def fields 1 2 3 4 5 tail ..
qed

lemma gtt_fields:
  assumes "C = 320 \<or> C = 640 \<or> C = 1280"
  shows "norm_layer (get_transformer_temporal C L) = (32, C)"
    "proj_in (get_transformer_temporal C L) = (C, C)"
    "proj_out (get_transformer_temporal C L) = (C, C)"
    "video_length (get_transformer_temporal C L) = 8"
    "transformer_blocks (get_transformer_temporal C L) =
       [TransformerBlock_init C 8 (C div 8) 2 None L]"
proof -
  have d: "8 * (C div 8) = C" using assms by auto
  show "norm_layer (get_transformer_temporal C L) = (32, C)"
    "proj_in (get_transformer_temporal C L) = (C, C)"
    "proj_out (get_transformer_temporal C L) = (C, C)"
    "video_length (get_transformer_temporal C L) = 8"
    "transformer_blocks (get_transformer_temporal C L) =
       [TransformerBlock_init C 8 (C div 8) 2 None L]"
    by (simp_all add: get_transformer_temporal_def TransformerTemporal_init_def Let_def d)
qed

lemma block_init_scale_None:
  "TransformerBlock_set_scale_multiplier None (TransformerBlock_init d h dh n c L) =
     TransformerBlock_init d h dh n c L"
  by (simp add: TransformerBlock_set_scale_multiplier_def TransformerBlock_init_def
      TemporalAttention_set_scale_multiplier_def TemporalAttention_init_def)

lemma tt_forward_ok:
  assumes C: "C = 320 \<or> C = 640 \<or> C = 1280"
    and pos: "0 < b" "0 < H" "0 < W" "0 < f" and len: "f \<le> L"
  shows "TransformerTemporal_forward
           (configure f fl m masks mn mx idxs (get_transformer_temporal C L))
           [b * f, C, H, W] ehs am = ([], Inr [b * f, C, H, W])"
proof -
  have B: "0 < b * f" using pos by simp
  have s: "0 < H * W" using pos by simp
  show ?thesis
    by (simp add: tt_forward_prefix [OF C B pos(2) pos(3)] configure_fields gtt_fields [OF C]
        configured_block_ok [OF pos(4) len s] bind_value ret_def)
qed

lemma tt_forward_indivisible:
  assumes C: "C = 320 \<or> C = 640 \<or> C = 1280"
    and pos: "0 < B" "0 < H" "0 < W" and nd: "\<not> 8 dvd B"
  shows "TransformerTemporal_forward (get_transformer_temporal C L) [B, C, H, W] ehs am =
    ([], Inl (EinopsError ''Shape mismatch, cannot divide axis into chunks''))"
proof -
  have blk: "\<And>sm. TransformerBlock_forward (TransformerBlock_init C 8 (C div 8) 2 None L)
      [B, H * W, C] ehs am 8 sm =
    ([], Inl (EinopsError ''Shape mismatch, cannot divide axis into chunks''))"
    using configured_block_indivisible [OF nd, where m = None] by (simp add: block_init_scale_None)
  show ?thesis
    by (simp add: tt_forward_prefix [OF C pos gtt_fields(1)[OF C] gtt_fields(2)[OF C]
          gtt_fields(3)[OF C]] gtt_fields [OF C] blk bind_error)
qed

text \<open>
  C3, as stated: every input \<open>[B, C, H, W]\<close> whose \<open>C\<close> is the configured channel
  width comes back with its shape. The attention regroups the batch axis into groups of
  \<^verbatim>\<open>video_length\<close> frames, 8 unless set otherwise, so a batch that is no multiple of it,
  here a single image, raises.
\<close>

theorem C3_forward_shape_counterexample:
  "result (TransformerTemporal_forward (get_transformer_temporal 320 24) [1, 320, 64, 64]
     None None) =
   Inl (EinopsError ''Shape mismatch, cannot divide axis into chunks'')"
proof -
  have "TransformerTemporal_forward (get_transformer_temporal 320 24) [1, 320, 64, 64]
     None None = ([], Inl (EinopsError ''Shape mismatch, cannot divide axis into chunks''))"
    by (rule tt_forward_indivisible) simp_all
  then show ?thesis by (simp add: result_def)
qed

text \<open>
  C3, amended: for a \<^verbatim>\<open>TransformerTemporal\<close> of channel width 320, 640 or 1280, in any
  state the setters give it, an input \<open>[B, C, H, W]\<close> of positive sizes whose \<open>C\<close> is that
  width and whose batch size is a multiple of the video length \<open>f\<close>, with \<open>0 < f\<close> and
  \<open>f\<close> at most the maximal sequence length, comes back with the shape \<open>[B, C, H, W]\<close>.
\<close>

theorem C3_forward_shape:
  assumes "C = 320 \<or> C = 640 \<or> C = 1280"
    and "0 < B" "0 < H" "0 < W" "0 < f" "f dvd B" "f \<le> L"
  shows "result (TransformerTemporal_forward
           (configure f fl m masks mn mx idxs (get_transformer_temporal C L))
           [B, C, H, W] ehs am) = Inr [B, C, H, W]"
proof -
  from assms(6) obtain b where B: "B = b * f" by (auto simp: dvd_def mult.commute)
  with assms(2) have b: "0 < b" by (cases b) simp_all
  show ?thesis
    unfolding B
    by (simp add: result_def tt_forward_ok [OF assms(1) b assms(3) assms(4) assms(5) assms(7)])
qed

theorem C3_forward_shape_witness:
  "result (TransformerTemporal_forward
     (configure 16 32 (Some 2) (Some [32, 64, 64]) 0 1 (Some [0, 1, 2])
        (get_transformer_temporal 640 24))
     [32, 640, 32, 32] None None) = Inr [32, 640, 32, 32]"
  by (rule C3_forward_shape) simp_all


end
